theory Spec2Isabelle
  imports Complex_Main "HOL-Library.Word" "HOL-Library.Signed_Division"
begin

section \<open>Data model (WaveDemo.h)\<close>

text \<open>
  Constants of \<^verbatim>\<open>WaveDemo.h\<close>. C \<^verbatim>\<open>int\<close> values are modelled as \<open>int\<close>: every
  cursor of the circular buffer stays below \<open>EVT_BUF_SIZE\<close>, far from the limits of a
  32-bit integer. C's \<^verbatim>\<open>%\<close> truncates towards zero: it is \<open>smod\<close>.
  The \<^verbatim>\<open>uint64_t\<close> counters and time stamps are \<open>64 word\<close>, whose arithmetic wraps
  around and whose order is the unsigned one.
\<close>

definition EVT_BUF_SIZE :: int where
  "EVT_BUF_SIZE = 2000"

definition SYNC_WIN :: int where
  "SYNC_WIN = 100"

definition MAX_BD :: int where
  "MAX_BD = 4"

text \<open>
  \<^verbatim>\<open>WaveDemoEvent_t\<close>: of a decoded event the synchronizer reads
  \<^verbatim>\<open>Event->DataGroup[g].TDC\<close>, the coarse time stamp of group \<open>g\<close>.
\<close>

record WaveDemoEvent =
  TDC :: "nat \<Rightarrow> 64 word"

text \<open>
  \<^verbatim>\<open>WaveDemoBuffers_t\<close>: one array per field, indexed by the board. \<open>buffer bd\<close> is
  \<open>None\<close> for a \<^verbatim>\<open>NULL\<close> pointer, else the array of event slots.
\<close>

record WaveDemoBuffers =
  buffer :: "nat \<Rightarrow> (nat \<Rightarrow> WaveDemoEvent) option"
  head :: "nat \<Rightarrow> int"
  tail :: "nat \<Rightarrow> int"
  tmp_pos :: "nat \<Rightarrow> int"

text \<open>
  \<^verbatim>\<open>WaveDemoStats_t\<close>. Each of its arrays \<^verbatim>\<open>X[MAX_BD][MAX_CH]\<close> is the field \<open>X\<close> of
  the record \<open>chan s b ch\<close>, which collects the entries of one channel \<^verbatim>\<open>[b][ch]\<close>;
  the scalar fields stay in \<open>WaveDemoStats\<close>. A \<^verbatim>\<open>float\<close> is modelled by the real
  number it stands for, and a conversion \<^verbatim>\<open>(float) x\<close> of a counter by \<open>real (unat x)\<close>:
  rounding is not modelled. \<open>RxByte_rate\<close> is \<open>None\<close> where the C division has a zero
  divisor and gives no finite number.
\<close>

record ChStats =
  EvRead_cnt :: "64 word"
  EvRead_pcnt :: "64 word"
  EvRead_dcnt :: "64 word"
  EvRead_rate :: real
  EvProcessed_cnt :: "64 word"
  EvProcessed_pcnt :: "64 word"
  EvInput_cnt :: "64 word"
  EvInput_pcnt :: "64 word"
  EvInput_rate :: real
  EvFilt_cnt :: "64 word"
  EvFilt_pcnt :: "64 word"
  EvFilt_rate :: real
  EvLost_cnt :: "64 word"
  EvLost_pcnt :: "64 word"
  EvLost_rate :: real
  DeadTime :: real
  MatchingRatio :: real
  EvOutput_rate :: real
  BusyTimeGap :: "64 word"
  BusyTime :: real
  LatestReadTstamp :: "64 word"
  PrevReadTstamp :: "64 word"
  LatestProcTstamp :: "64 word"
  PrevProcTstamp :: "64 word"
  ICRUpdateTime :: "64 word"
  PrevICRUpdateTime :: "64 word"
  LostTrgUpdateTime :: "64 word"
  PrevLostTrgUpdateTime :: "64 word"

record WaveDemoStats =
  RxByte_cnt :: "64 word"
  RxByte_pcnt :: "64 word"
  RxByte_rate :: "real option"
  BlockRead_cnt :: "64 word"
  UnSyncEv_cnt :: "64 word"
  StartTime :: "64 word"
  LastUpdateTime :: "64 word"
  AcqRealTime :: real
  RealTimeSource :: int
  LatestProcTstampAll :: "64 word"
  PrevProcTstampAll :: "64 word"
  chan :: "nat \<Rightarrow> nat \<Rightarrow> ChStats"

text \<open>
  The fields of \<^verbatim>\<open>WaveDemoConfig_t\<close> and \<^verbatim>\<open>WaveDemoRun_t\<close> that the synchronizer and
  the statistics read: \<open>RefChannel bd\<close> is \<^verbatim>\<open>boards[bd].RefChannel\<close>, \<open>Nch bd\<close> is
  \<^verbatim>\<open>handles[bd].Nch\<close>, and \<open>ChannelEnable bd ch\<close> tells whether the \<^verbatim>\<open>char\<close>
  \<^verbatim>\<open>boards[bd].channels[ch].ChannelEnable\<close> is not zero.
\<close>

record WaveDemoConfig =
  NumBoards :: int
  RefChannel :: "nat \<Rightarrow> int"
  Nch :: "nat \<Rightarrow> int"
  ChannelEnable :: "nat \<Rightarrow> nat \<Rightarrow> bool"
  TOFstartBoard :: int

record WaveDemoRun =
  AcqRun :: int
  IntegratedRates :: int

definition REALTIME_FROM_BOARDS :: int where
  "REALTIME_FROM_BOARDS = 0"

definition REALTIME_FROM_COMPUTER :: int where
  "REALTIME_FROM_COMPUTER = 1"

section \<open>The circular buffer (WDBuffers.c)\<close>

text \<open>
  Every function that writes through its \<^verbatim>\<open>buff\<close> argument returns the C return value
  together with the updated buffers.
\<close>

definition WDBuff_reset :: "WaveDemoBuffers \<Rightarrow> nat \<Rightarrow> int \<times> WaveDemoBuffers" where
  "WDBuff_reset buff bd =
     (if buffer buff bd = None then (-1, buff)
      else (0, buff\<lparr>head := (head buff)(bd := 0),
                     tail := (tail buff)(bd := 0),
                     tmp_pos := (tmp_pos buff)(bd := 0)\<rparr>))"

definition WDBuff_empty :: "WaveDemoBuffers \<Rightarrow> nat \<Rightarrow> int" where
  "WDBuff_empty buff bd = (if head buff bd = tail buff bd then 1 else 0)"

definition WDBuff_full :: "WaveDemoBuffers \<Rightarrow> nat \<Rightarrow> int" where
  "WDBuff_full buff bd =
     (if (head buff bd + 1) smod EVT_BUF_SIZE = tail buff bd then 1 else 0)"

definition WDBuff_free_space :: "WaveDemoBuffers \<Rightarrow> nat \<Rightarrow> int" where
  "WDBuff_free_space buff bd =
     (if WDBuff_full buff bd \<noteq> 0 then 0
      else if head buff bd \<ge> tail buff bd
        then EVT_BUF_SIZE - 1 - (head buff bd - tail buff bd)
      else tail buff bd - head buff bd - 1)"

definition WDBuff_used_space :: "WaveDemoBuffers \<Rightarrow> nat \<Rightarrow> int" where
  "WDBuff_used_space buff bd =
     (if head buff bd \<ge> tail buff bd then head buff bd - tail buff bd
      else EVT_BUF_SIZE - tail buff bd + head buff bd)"

text \<open>
  The loop of \<^verbatim>\<open>WDBuff_remove\<close>: \<open>i\<close> counts the slots released so far; it stops at
  \<open>num\<close> or as soon as the buffer is empty.
\<close>

function remove_loop :: "WaveDemoBuffers \<Rightarrow> nat \<Rightarrow> int \<Rightarrow> int \<Rightarrow> int \<times> WaveDemoBuffers" where
  "remove_loop buff bd i num =
     (if i < num then
        (if WDBuff_empty buff bd \<noteq> 0 then (i, buff)
         else remove_loop
                (buff\<lparr>tail := (tail buff)(bd := (tail buff bd + 1) smod EVT_BUF_SIZE)\<rparr>)
                bd (i + 1) num)
      else (i, buff))"
  by pat_completeness auto
termination
  by (relation "measure (\<lambda>(buff, bd, i, num). nat (num - i))") auto

declare remove_loop.simps [simp del]

definition WDBuff_remove :: "WaveDemoBuffers \<Rightarrow> nat \<Rightarrow> int \<Rightarrow> int \<times> WaveDemoBuffers" where
  "WDBuff_remove buff bd num =
     (if buffer buff bd = None \<or> num < 0 then (-1, buff)
      else remove_loop buff bd 0 num)"

text \<open>The loop of \<^verbatim>\<open>WDBuff_added\<close>: it stops at \<open>num\<close> or as soon as the buffer is full.\<close>

function added_loop :: "WaveDemoBuffers \<Rightarrow> nat \<Rightarrow> int \<Rightarrow> int \<Rightarrow> int \<times> WaveDemoBuffers" where
  "added_loop buff bd i num =
     (if i < num then
        (if WDBuff_full buff bd \<noteq> 0 then (i, buff)
         else added_loop
                (buff\<lparr>head := (head buff)(bd := (head buff bd + 1) smod EVT_BUF_SIZE)\<rparr>)
                bd (i + 1) num)
      else (i, buff))"
  by pat_completeness auto
termination
  by (relation "measure (\<lambda>(buff, bd, i, num). nat (num - i))") auto

declare added_loop.simps [simp del]

definition WDBuff_added :: "WaveDemoBuffers \<Rightarrow> nat \<Rightarrow> int \<Rightarrow> int \<times> WaveDemoBuffers" where
  "WDBuff_added buff bd num =
     (if buffer buff bd = None \<or> num < 0 then (-1, buff)
      else added_loop buff bd 0 num)"

text \<open>
  \<^verbatim>\<open>WDBuff_peak\<close> writes the address of the slot at \<open>tail\<close> through \<^verbatim>\<open>event\<close>. The
  pointer is modelled by the event it points to; on failure the caller's pointer
  \<open>ev\<close> keeps its value.
\<close>

definition WDBuff_peak ::
  "WaveDemoBuffers \<Rightarrow> nat \<Rightarrow> WaveDemoEvent option \<Rightarrow> int \<times> WaveDemoEvent option" where
  "WDBuff_peak buff bd ev =
     (case buffer buff bd of
        None \<Rightarrow> (-1, ev)
      | Some slots \<Rightarrow>
          if WDBuff_empty buff bd \<noteq> 0 then (-1, ev)
          else (0, Some (slots (nat (tail buff bd)))))"

definition WDBuff_set_position :: "WaveDemoBuffers \<Rightarrow> nat \<Rightarrow> int \<Rightarrow> int \<times> WaveDemoBuffers" where
  "WDBuff_set_position buff bd pos =
     (if buffer buff bd = None \<or> WDBuff_empty buff bd \<noteq> 0 then (-1, buff)
      else if pos < 0 \<or> pos \<ge> EVT_BUF_SIZE then (-1, buff)
      else if pos \<ge> head buff bd \<or> pos < tail buff bd then (-1, buff)
      else (0, buff\<lparr>tmp_pos := (tmp_pos buff)(bd := pos)\<rparr>))"

subsection \<open>Sequences of buffer operations\<close>

text \<open>
  A call of one of the three mutators of \<open>head\<close> and \<open>tail\<close> on board \<open>bd\<close>, and the list
  of the states that a sequence of such calls goes through, the starting state first.
\<close>

datatype buff_op = Op_reset | Op_added int | Op_remove int

fun apply_buff_op :: "nat \<Rightarrow> buff_op \<Rightarrow> WaveDemoBuffers \<Rightarrow> WaveDemoBuffers" where
  "apply_buff_op bd Op_reset buff = snd (WDBuff_reset buff bd)"
| "apply_buff_op bd (Op_added n) buff = snd (WDBuff_added buff bd n)"
| "apply_buff_op bd (Op_remove n) buff = snd (WDBuff_remove buff bd n)"

fun buff_trace :: "nat \<Rightarrow> buff_op list \<Rightarrow> WaveDemoBuffers \<Rightarrow> WaveDemoBuffers list" where
  "buff_trace bd [] buff = [buff]"
| "buff_trace bd (x # xs) buff = buff # buff_trace bd xs (apply_buff_op bd x buff)"

text \<open>
  The positions that hold a live event: from \<open>tail\<close> (inclusive) to \<open>head\<close>
  (exclusive) in circular order.
\<close>

definition in_circular_range :: "WaveDemoBuffers \<Rightarrow> nat \<Rightarrow> int \<Rightarrow> bool" where
  "in_circular_range buff bd pos \<longleftrightarrow>
     0 \<le> pos \<and> pos < EVT_BUF_SIZE \<and>
     (if tail buff bd \<le> head buff bd
      then tail buff bd \<le> pos \<and> pos < head buff bd
      else tail buff bd \<le> pos \<or> pos < head buff bd)"

text \<open>Both cursors inside the array: the states the buffer functions produce.\<close>

definition cursors_ok :: "WaveDemoBuffers \<Rightarrow> nat \<Rightarrow> bool" where
  "cursors_ok buff bd \<longleftrightarrow>
     0 \<le> head buff bd \<and> head buff bd < EVT_BUF_SIZE \<and>
     0 \<le> tail buff bd \<and> tail buff bd < EVT_BUF_SIZE"

section \<open>Synchronized processing (WaveDemo.c)\<close>

text \<open>
  What \<^verbatim>\<open>ProcessesSynchronizedEvents\<close> reads and writes: the global buffers and
  statistics, the reference-event pointers \<^verbatim>\<open>WDcfg.handles[bd].RefEvent\<close>, the number
  of warnings sent to the log, and its two locals that live across the rounds of its
  main loop, the array \<^verbatim>\<open>events\<close> of peeked events and \<^verbatim>\<open>TDC_min\<close>.
\<close>

record SyncState =
  WDbuff :: WaveDemoBuffers
  WDstats :: WaveDemoStats
  RefEvent :: "nat \<Rightarrow> WaveDemoEvent option"
  warnings :: nat
  events :: "nat \<Rightarrow> WaveDemoEvent option"
  TDC_min :: "64 word"

text \<open>
  How one round ends: it falls through to the next iteration, or the function
  returns, or the round reads through a \<^verbatim>\<open>NULL\<close> pointer (an entry of \<^verbatim>\<open>events\<close>, or
  the reference event in \<^verbatim>\<open>EventProcessing\<close>) and does not complete.
\<close>

datatype round_outcome = Continue | Return int | Null_deref

text \<open>The loops \<^verbatim>\<open>for (bd = 0; bd < WDcfg.NumBoards; bd++)\<close> and \<^verbatim>\<open>for (ch = 0; ch < Nch; ch++)\<close>.\<close>

definition boards :: "WaveDemoConfig \<Rightarrow> nat list" where
  "boards cfg = [0..<nat (NumBoards cfg)]"

definition channels :: "WaveDemoConfig \<Rightarrow> nat \<Rightarrow> nat list" where
  "channels cfg bd = [0..<nat (Nch cfg bd)]"

text \<open>Lines 602-607: the oldest event of each board; \<open>None\<close> is the \<^verbatim>\<open>return 0\<close>.\<close>

fun peek_loop ::
  "WaveDemoBuffers \<Rightarrow> nat list \<Rightarrow> (nat \<Rightarrow> WaveDemoEvent option)
     \<Rightarrow> (nat \<Rightarrow> WaveDemoEvent option) option" where
  "peek_loop buff [] ev = Some ev"
| "peek_loop buff (bd # bds) ev =
     (if WDBuff_empty buff bd \<noteq> 0 then None
      else peek_loop buff bds (ev(bd := snd (WDBuff_peak buff bd (ev bd)))))"

text \<open>\<^verbatim>\<open>events[bd]->Event->DataGroup[WDcfg.boards[bd].RefChannel / 2].TDC\<close>\<close>

definition ref_TDC :: "WaveDemoConfig \<Rightarrow> nat \<Rightarrow> WaveDemoEvent \<Rightarrow> 64 word" where
  "ref_TDC cfg bd e = TDC e (nat (RefChannel cfg bd sdiv 2))"

text \<open>
  Lines 609-618: the minimum time stamp. Board 0 is read under the guard
  \<^verbatim>\<open>if (events[0])\<close>; the other boards are dereferenced without one.
\<close>

fun min_loop ::
  "WaveDemoConfig \<Rightarrow> (nat \<Rightarrow> WaveDemoEvent option) \<Rightarrow> nat list \<Rightarrow> 64 word
     \<Rightarrow> 64 word option" where
  "min_loop cfg ev [] m = Some m"
| "min_loop cfg ev (bd # bds) m =
     (case ev bd of
        None \<Rightarrow> None
      | Some e \<Rightarrow> min_loop cfg ev bds (if ref_TDC cfg bd e < m then ref_TDC cfg bd e else m))"

definition round_TDC_min ::
  "WaveDemoConfig \<Rightarrow> (nat \<Rightarrow> WaveDemoEvent option) \<Rightarrow> 64 word \<Rightarrow> 64 word option" where
  "round_TDC_min cfg ev m =
     min_loop cfg ev [1..<nat (NumBoards cfg)]
       (case ev 0 of None \<Rightarrow> m | Some e \<Rightarrow> ref_TDC cfg 0 e)"

text \<open>Lines 622-626: the offset of a board from the minimum, in ns, and the window test.\<close>

definition TDCdiff_ns ::
  "WaveDemoConfig \<Rightarrow> (nat \<Rightarrow> WaveDemoEvent option) \<Rightarrow> 64 word \<Rightarrow> nat \<Rightarrow> 64 word" where
  "TDCdiff_ns cfg ev m bd =
     (case ev bd of
        None \<Rightarrow> word_of_int (SYNC_WIN + 1)
      | Some e \<Rightarrow> (ref_TDC cfg bd e - m) * 5)"

definition in_window ::
  "WaveDemoConfig \<Rightarrow> (nat \<Rightarrow> WaveDemoEvent option) \<Rightarrow> 64 word \<Rightarrow> nat \<Rightarrow> bool" where
  "in_window cfg ev m bd \<longleftrightarrow> TDCdiff_ns cfg ev m bd \<le> word_of_int SYNC_WIN"

text \<open>
  Lines 620-635: the loop state is \<^verbatim>\<open>event_good\<close>, \<^verbatim>\<open>count_sync_evt\<close> and the
  \<^verbatim>\<open>RefEvent\<close> pointers.
\<close>

fun match_loop ::
  "WaveDemoConfig \<Rightarrow> (nat \<Rightarrow> WaveDemoEvent option) \<Rightarrow> 64 word \<Rightarrow> nat list
     \<Rightarrow> (nat \<Rightarrow> int) \<times> int \<times> (nat \<Rightarrow> WaveDemoEvent option)
     \<Rightarrow> (nat \<Rightarrow> int) \<times> int \<times> (nat \<Rightarrow> WaveDemoEvent option)" where
  "match_loop cfg ev m [] acc = acc"
| "match_loop cfg ev m (bd # bds) (event_good, count_sync_evt, ref) =
     match_loop cfg ev m bds
       (if in_window cfg ev m bd then event_good(bd := 1) else event_good,
        if in_window cfg ev m bd then count_sync_evt + 1 else count_sync_evt,
        ref(bd := (if int bd = TOFstartBoard cfg then ev bd else None)))"

text \<open>The three counting loops over the enabled channels of a board (lines 658-692).\<close>

definition upd_chan ::
  "WaveDemoStats \<Rightarrow> nat \<Rightarrow> nat \<Rightarrow> (ChStats \<Rightarrow> ChStats) \<Rightarrow> WaveDemoStats" where
  "upd_chan st bd ch f = st\<lparr>chan := (chan st)(bd := (chan st bd)(ch := f (chan st bd ch)))\<rparr>"

text \<open>
  \<^verbatim>\<open>EventProcessing\<close> (lines 361-394) reads the reference event through
  \<^verbatim>\<open>WDcfg.handles[WDcfg.TOFstartBoard].RefEvent\<close> without a test. \<open>ref\<close> is the array of
  these pointers. The result is \<open>None\<close> when the index is outside the array
  \<^verbatim>\<open>handles[MAX_BD]\<close> or the pointer is \<^verbatim>\<open>NULL\<close>: the call does not return. Otherwise
  it is the return value 0; the histograms and output files that the function fills
  hold no counter of the statistics and are not modelled.
\<close>

definition EventProcessing ::
  "WaveDemoConfig \<Rightarrow> (nat \<Rightarrow> WaveDemoEvent option) \<Rightarrow> nat \<Rightarrow> nat \<Rightarrow> int option" where
  "EventProcessing cfg ref bd ch =
     (if TOFstartBoard cfg < 0 \<or> MAX_BD \<le> TOFstartBoard cfg then None
      else (case ref (nat (TOFstartBoard cfg)) of None \<Rightarrow> None | Some r \<Rightarrow> Some 0))"

text \<open>The reference pointer can be read: the condition under which the call returns.\<close>

definition reference_ok :: "WaveDemoConfig \<Rightarrow> (nat \<Rightarrow> WaveDemoEvent option) \<Rightarrow> bool" where
  "reference_ok cfg ref \<longleftrightarrow>
     0 \<le> TOFstartBoard cfg \<and> TOFstartBoard cfg < MAX_BD \<and> ref (nat (TOFstartBoard cfg)) \<noteq> None"

text \<open>
  In a full match (lines 658-677): \<open>toProcess bd ch\<close> tells whether
  \<^verbatim>\<open>events[bd]->EventPlus[ch / 2][ch % 2].FineTimeStamp\<close> is not zero after
  \<^verbatim>\<open>MultiWaveformProcess\<close>, whose source is not part of the repository; it is a
  parameter. The loop stops with \<open>Null_deref\<close> at the first call of
  \<^verbatim>\<open>EventProcessing\<close> that does not return. The plotting calls touch no counter and
  are left out.
\<close>

fun filt_loop ::
  "WaveDemoConfig \<Rightarrow> (nat \<Rightarrow> nat \<Rightarrow> bool) \<Rightarrow> (nat \<Rightarrow> WaveDemoEvent option) \<Rightarrow> nat \<Rightarrow> nat list
     \<Rightarrow> WaveDemoStats \<Rightarrow> round_outcome \<times> WaveDemoStats" where
  "filt_loop cfg toProcess ref bd [] st = (Continue, st)"
| "filt_loop cfg toProcess ref bd (ch # chs) st =
     (if ChannelEnable cfg bd ch \<and> toProcess bd ch then
        (case EventProcessing cfg ref bd ch of
           None \<Rightarrow> (Null_deref, st)
         | Some r \<Rightarrow>
             filt_loop cfg toProcess ref bd chs
               (upd_chan st bd ch (\<lambda>c. c\<lparr>EvFilt_cnt := EvFilt_cnt c + 1\<rparr>)))
      else filt_loop cfg toProcess ref bd chs st)"

fun lost_loop :: "WaveDemoConfig \<Rightarrow> nat \<Rightarrow> nat list \<Rightarrow> WaveDemoStats \<Rightarrow> WaveDemoStats" where
  "lost_loop cfg bd [] st = st"
| "lost_loop cfg bd (ch # chs) st =
     lost_loop cfg bd chs
       (if ChannelEnable cfg bd ch
        then upd_chan st bd ch (\<lambda>c. c\<lparr>EvLost_cnt := EvLost_cnt c + 1\<rparr>)
        else st)"

fun processed_loop :: "WaveDemoConfig \<Rightarrow> nat \<Rightarrow> nat list \<Rightarrow> WaveDemoStats \<Rightarrow> WaveDemoStats" where
  "processed_loop cfg bd [] st = st"
| "processed_loop cfg bd (ch # chs) st =
     processed_loop cfg bd chs
       (if ChannelEnable cfg bd ch
        then upd_chan st bd ch (\<lambda>c. c\<lparr>EvProcessed_cnt := EvProcessed_cnt c + 1\<rparr>)
        else st)"

text \<open>
  Lines 654-694: a board marked good is counted and loses its oldest event. In a full
  match the events are processed first; when \<^verbatim>\<open>EventProcessing\<close> does not return, the
  round ends there, before \<^verbatim>\<open>WDBuff_remove\<close>.
\<close>

definition update_board ::
  "WaveDemoConfig \<Rightarrow> (nat \<Rightarrow> nat \<Rightarrow> bool) \<Rightarrow> (nat \<Rightarrow> int) \<Rightarrow> int \<Rightarrow> nat
     \<Rightarrow> SyncState \<Rightarrow> round_outcome \<times> SyncState" where
  "update_board cfg toProcess event_good count_sync_evt bd s =
     (if event_good bd \<noteq> 0 then
        (if count_sync_evt = NumBoards cfg then
           (case filt_loop cfg toProcess (RefEvent s) bd (channels cfg bd) (WDstats s) of
              (Continue, st) \<Rightarrow>
                (Continue,
                 s\<lparr>WDstats := processed_loop cfg bd (channels cfg bd) st,
                   WDbuff := snd (WDBuff_remove (WDbuff s) bd 1)\<rparr>)
            | (r, st) \<Rightarrow> (r, s\<lparr>WDstats := st\<rparr>))
         else
           (Continue,
            s\<lparr>WDstats :=
                processed_loop cfg bd (channels cfg bd)
                  (lost_loop cfg bd (channels cfg bd) (WDstats s)),
              WDbuff := snd (WDBuff_remove (WDbuff s) bd 1)\<rparr>))
      else (Continue, s))"

fun update_loop ::
  "WaveDemoConfig \<Rightarrow> (nat \<Rightarrow> nat \<Rightarrow> bool) \<Rightarrow> (nat \<Rightarrow> int) \<Rightarrow> int \<Rightarrow> nat list
     \<Rightarrow> SyncState \<Rightarrow> round_outcome \<times> SyncState" where
  "update_loop cfg toProcess event_good count_sync_evt [] s = (Continue, s)"
| "update_loop cfg toProcess event_good count_sync_evt (bd # bds) s =
     (case update_board cfg toProcess event_good count_sync_evt bd s of
        (Continue, s1) \<Rightarrow> update_loop cfg toProcess event_good count_sync_evt bds s1
      | (r, s1) \<Rightarrow> (r, s1))"

declare update_loop.simps(2) [simp del]

text \<open>
  Lines 637-652, the branch of a partial match: the counter of unsynchronized events
  grows by \<^verbatim>\<open>(uint64_t)WDcfg.NumBoards - count_sync_evt\<close>, and the warning is logged when
  the counter is zero after the addition.
\<close>

definition count_unsync :: "WaveDemoConfig \<Rightarrow> int \<Rightarrow> SyncState \<Rightarrow> SyncState" where
  "count_unsync cfg count_sync_evt s =
     (if count_sync_evt = NumBoards cfg then s
      else
        (let cnt = UnSyncEv_cnt (WDstats s)
                     + (word_of_int (NumBoards cfg) - word_of_int count_sync_evt)
         in s\<lparr>WDstats := (WDstats s)\<lparr>UnSyncEv_cnt := cnt\<rparr>,
               warnings := (if cnt = 0 then warnings s + 1 else warnings s)\<rparr>))"

text \<open>
  The values a round computes from the state at its start: the peeked events, the
  minimum time stamp, and the result of the matching loop.
\<close>

definition round_events :: "WaveDemoConfig \<Rightarrow> SyncState \<Rightarrow> (nat \<Rightarrow> WaveDemoEvent option) option" where
  "round_events cfg s = peek_loop (WDbuff s) (boards cfg) (events s)"

definition round_match ::
  "WaveDemoConfig \<Rightarrow> SyncState \<Rightarrow> (nat \<Rightarrow> WaveDemoEvent option) \<Rightarrow> 64 word
     \<Rightarrow> (nat \<Rightarrow> int) \<times> int \<times> (nat \<Rightarrow> WaveDemoEvent option)" where
  "round_match cfg s ev m = match_loop cfg ev m (boards cfg) (\<lambda>bd. 0, 0, RefEvent s)"

text \<open>One iteration of the main loop (lines 598-695).\<close>

definition sync_round ::
  "WaveDemoConfig \<Rightarrow> (nat \<Rightarrow> nat \<Rightarrow> bool) \<Rightarrow> SyncState \<Rightarrow> round_outcome \<times> SyncState" where
  "sync_round cfg toProcess s =
     (case round_events cfg s of
        None \<Rightarrow> (Return 0, s)
      | Some ev \<Rightarrow>
          (case round_TDC_min cfg ev (TDC_min s) of
             None \<Rightarrow> (Null_deref, s\<lparr>events := ev\<rparr>)
           | Some m \<Rightarrow>
               (case round_match cfg s ev m of
                  (event_good, count_sync_evt, ref) \<Rightarrow>
                    update_loop cfg toProcess event_good count_sync_evt (boards cfg)
                      (count_unsync cfg count_sync_evt
                         (s\<lparr>events := ev, TDC_min := m, RefEvent := ref\<rparr>)))))"

text \<open>Lines 589-593: the smallest number of buffered events over the boards.\<close>

fun min_len_loop :: "WaveDemoBuffers \<Rightarrow> nat list \<Rightarrow> int \<Rightarrow> int" where
  "min_len_loop buff [] min_buff_len = min_buff_len"
| "min_len_loop buff (bd # bds) min_buff_len =
     min_len_loop buff bds
       (if WDBuff_used_space buff bd < min_buff_len then WDBuff_used_space buff bd
        else min_buff_len)"

text \<open>
  The main loop \<^verbatim>\<open>for (i = 0; i < min_buff_len; i++)\<close>; \<open>toProcess i\<close> is the parameter
  of round \<open>i\<close>.
\<close>

function rounds_loop ::
  "WaveDemoConfig \<Rightarrow> (int \<Rightarrow> nat \<Rightarrow> nat \<Rightarrow> bool) \<Rightarrow> int \<Rightarrow> int \<Rightarrow> SyncState
     \<Rightarrow> round_outcome \<times> SyncState" where
  "rounds_loop cfg toProcess i min_buff_len s =
     (if i < min_buff_len then
        (case sync_round cfg (toProcess i) s of
           (Continue, s') \<Rightarrow> rounds_loop cfg toProcess (i + 1) min_buff_len s'
         | r \<Rightarrow> r)
      else (Return 1, s))"
  by pat_completeness auto
termination
  by (relation "measure (\<lambda>(cfg, toProcess, i, min_buff_len, s). nat (min_buff_len - i))") auto

declare rounds_loop.simps [simp del]

definition ProcessesSynchronizedEvents ::
  "WaveDemoConfig \<Rightarrow> (int \<Rightarrow> nat \<Rightarrow> nat \<Rightarrow> bool) \<Rightarrow> SyncState \<Rightarrow> round_outcome \<times> SyncState" where
  "ProcessesSynchronizedEvents cfg toProcess s =
     (let s0 = s\<lparr>events := (\<lambda>bd. None), TDC_min := 0\<rparr>;
          min_buff_len = min_len_loop (WDbuff s0) [1..<nat (NumBoards cfg)]
                           (WDBuff_used_space (WDbuff s0) 0)
      in if min_buff_len = 0 then (Return 0, s0)
         else rounds_loop cfg toProcess 0 min_buff_len s0)"

text \<open>
  The board is marked good in the round that starts in \<open>s\<close>, and the number of boards
  marked good.
\<close>

definition matched :: "WaveDemoConfig \<Rightarrow> SyncState \<Rightarrow> nat \<Rightarrow> bool" where
  "matched cfg s bd \<longleftrightarrow>
     (case round_events cfg s of
        None \<Rightarrow> False
      | Some ev \<Rightarrow>
          (case round_TDC_min cfg ev (TDC_min s) of
             None \<Rightarrow> False
           | Some m \<Rightarrow> fst (round_match cfg s ev m) bd \<noteq> 0))"

definition count_sync_evt :: "WaveDemoConfig \<Rightarrow> SyncState \<Rightarrow> int" where
  "count_sync_evt cfg s =
     (case round_events cfg s of
        None \<Rightarrow> 0
      | Some ev \<Rightarrow>
          (case round_TDC_min cfg ev (TDC_min s) of
             None \<Rightarrow> 0
           | Some m \<Rightarrow> fst (snd (round_match cfg s ev m))))"

text \<open>
  The rounds the claims speak of: every active board has an allocated, non-empty
  buffer, so that \<^verbatim>\<open>WDBuff_peak\<close> yields its oldest event. \<open>peeked_TDC\<close> is the
  reference-channel time stamp of that event and \<open>round_min\<close> the smallest of them
  over the active boards.
\<close>

definition all_peeked :: "WaveDemoConfig \<Rightarrow> SyncState \<Rightarrow> bool" where
  "all_peeked cfg s \<longleftrightarrow>
     (\<forall>bd \<in> set (boards cfg). buffer (WDbuff s) bd \<noteq> None \<and> WDBuff_empty (WDbuff s) bd = 0)"

definition oldest :: "WaveDemoBuffers \<Rightarrow> nat \<Rightarrow> WaveDemoEvent option" where
  "oldest buff bd = snd (WDBuff_peak buff bd None)"

definition peeked_TDC :: "WaveDemoConfig \<Rightarrow> SyncState \<Rightarrow> nat \<Rightarrow> 64 word" where
  "peeked_TDC cfg s bd =
     (case oldest (WDbuff s) bd of None \<Rightarrow> 0 | Some e \<Rightarrow> ref_TDC cfg bd e)"

definition round_min :: "WaveDemoConfig \<Rightarrow> SyncState \<Rightarrow> 64 word" where
  "round_min cfg s = Min (peeked_TDC cfg s ` set (boards cfg))"

section \<open>Statistics (WDStats.c)\<close>

text \<open>
  \<^verbatim>\<open>UpdateStatistics\<close>, lines 67-82: the real time of the acquisition, from the boards
  when the latest processed time stamp has advanced and from the computer otherwise,
  and the throughput. A C division whose divisor is zero has no finite result:
  \<open>fdiv\<close> gives \<open>None\<close> there.
\<close>

definition fdiv :: "real \<Rightarrow> real \<Rightarrow> real option" where
  "fdiv a b = (if b = 0 then None else Some (a / b))"

definition update_globals :: "WaveDemoRun \<Rightarrow> 64 word \<Rightarrow> WaveDemoStats \<Rightarrow> WaveDemoStats" where
  "update_globals run CurrentTime st =
     (let st1 =
            (if LatestProcTstampAll st > PrevProcTstampAll st
             then st\<lparr>AcqRealTime := real (unat (LatestProcTstampAll st)) / 1000000,
                     RealTimeSource := REALTIME_FROM_BOARDS\<rparr>
             else st\<lparr>AcqRealTime := real (unat (CurrentTime - StartTime st)),
                     RealTimeSource := REALTIME_FROM_COMPUTER\<rparr>);
          st2 =
            (if IntegratedRates run \<noteq> 0
             then st1\<lparr>RxByte_rate :=
                        fdiv (real (unat (RxByte_cnt st1))) (AcqRealTime st1 * (1048576 / 1000))\<rparr>
             else st1\<lparr>RxByte_rate :=
                        fdiv (real (unat (RxByte_cnt st1 - RxByte_pcnt st1)))
                          (real (unat (CurrentTime - LastUpdateTime st1)) * (1048576 / 1000))\<rparr>)
      in st2\<lparr>RxByte_pcnt := RxByte_cnt st2, BlockRead_cnt := 0, LastUpdateTime := CurrentTime\<rparr>)"

text \<open>
  The body of the loop over the enabled channels, on the entries \<open>c\<close> of one channel,
  in the order of the source. Lines 88-106: read, filtered and output rate.
\<close>

definition rates_step :: "WaveDemoRun \<Rightarrow> ChStats \<Rightarrow> ChStats" where
  "rates_step run c =
     (let c1 = c\<lparr>EvRead_rate := 0, EvFilt_rate := 0, EvOutput_rate := 0\<rparr>;
          c2 =
            (if IntegratedRates run \<noteq> 0 \<and> LatestReadTstamp c1 > 0 then
               (let elapsed = real (unat (LatestReadTstamp c1)) / 1000000000
                in c1\<lparr>EvRead_rate := real (unat (EvRead_cnt c1)) / elapsed,
                       EvFilt_rate := real (unat (EvFilt_cnt c1)) / elapsed\<rparr>)
             else if LatestReadTstamp c1 > PrevReadTstamp c1 then
               (let elapsed = real (unat (LatestReadTstamp c1 - PrevReadTstamp c1)) / 1000000000
                in c1\<lparr>EvRead_rate := real (unat (EvRead_cnt c1 - EvRead_pcnt c1)) / elapsed,
                       EvFilt_rate := real (unat (EvFilt_cnt c1 - EvFilt_pcnt c1)) / elapsed\<rparr>)
             else c1);
          c3 = c2\<lparr>EvOutput_rate := EvFilt_rate c2\<rparr>;
          c4 = (if EvFilt_rate c3 > EvRead_rate c3 then c3\<lparr>EvFilt_rate := EvRead_rate c3\<rparr> else c3)
      in if EvOutput_rate c4 < 0 then c4\<lparr>EvOutput_rate := 0\<rparr> else c4)"

text \<open>
  Lines 108-136: the rate of the triggers at the board input; -1 stands for "not
  available". \<open>acq\<close> is \<^verbatim>\<open>WDstats.AcqRealTime\<close>.
\<close>

definition input_rate_step :: "WaveDemoRun \<Rightarrow> real \<Rightarrow> ChStats \<Rightarrow> ChStats" where
  "input_rate_step run acq c =
     (let c1 =
            (if AcqRun run = 0 then c\<lparr>EvInput_rate := 0\<rparr>
             else if EvInput_cnt c = 0xFFFFFFFFFFFFFFFF then c\<lparr>EvInput_rate := -1\<rparr>
             else if EvRead_rate c = 0 \<or> ICRUpdateTime c = 0 then c\<lparr>EvInput_rate := 0\<rparr>
             else if IntegratedRates run \<noteq> 0 then
               c\<lparr>EvInput_rate :=
                    real (unat (EvInput_cnt c)) / (real (unat (ICRUpdateTime c)) / 1000000000),
                  EvInput_pcnt := EvInput_cnt c,
                  PrevICRUpdateTime := ICRUpdateTime c\<rparr>
             else if ICRUpdateTime c > PrevICRUpdateTime c then
               c\<lparr>EvInput_rate :=
                    real (unat (EvInput_cnt c - EvInput_pcnt c))
                      / (real (unat (ICRUpdateTime c - PrevICRUpdateTime c)) / 1000000000),
                  EvInput_pcnt := EvInput_cnt c,
                  PrevICRUpdateTime := ICRUpdateTime c\<rparr>
             else if real (unat (PrevICRUpdateTime c)) / 1000000 < acq - 5000 then
               c\<lparr>EvInput_rate := EvRead_rate c\<rparr>
             else c)
      in if EvInput_rate c1 \<noteq> -1 \<and> EvInput_rate c1 < EvRead_rate c1
         then c1\<lparr>EvInput_rate := EvRead_rate c1\<rparr> else c1)"

text \<open>
  Lines 138-156: the rate of lost triggers. The counter is unsigned, so the test
  \<^verbatim>\<open>WDstats.EvLost_cnt[b][ch] < 0\<close> compares it with the word 0.
\<close>

definition lost_rate_step :: "WaveDemoRun \<Rightarrow> ChStats \<Rightarrow> ChStats" where
  "lost_rate_step run c =
     (if EvLost_cnt c < 0 then c\<lparr>EvLost_rate := -1\<rparr>
      else if IntegratedRates run \<noteq> 0 \<and> LostTrgUpdateTime c > 0 then
        c\<lparr>EvLost_rate :=
             real (unat (EvLost_cnt c)) / (real (unat (LostTrgUpdateTime c)) / 1000000000),
           EvLost_pcnt := EvLost_cnt c,
           PrevLostTrgUpdateTime := LostTrgUpdateTime c\<rparr>
      else if LostTrgUpdateTime c > PrevLostTrgUpdateTime c then
        c\<lparr>EvLost_rate :=
             real (unat (EvLost_cnt c - EvLost_pcnt c))
               / (real (unat (LostTrgUpdateTime c - PrevLostTrgUpdateTime c)) / 1000000000),
           EvLost_pcnt := EvLost_cnt c,
           PrevLostTrgUpdateTime := LostTrgUpdateTime c\<rparr>
      else c\<lparr>EvLost_rate := 0\<rparr>)"

text \<open>Lines 157-158: the lost rate is not left above the input rate.\<close>

definition lost_clamp :: "ChStats \<Rightarrow> ChStats" where
  "lost_clamp c =
     (if EvLost_rate c > EvInput_rate c then c\<lparr>EvLost_rate := EvInput_rate c\<rparr> else c)"

text \<open>Lines 160-168: the dead time, kept between 0 and 1.\<close>

definition dead_time_step :: "ChStats \<Rightarrow> ChStats" where
  "dead_time_step c =
     (let c1 =
            (if EvInput_rate c > 0 \<and> EvLost_rate c \<ge> 0
             then c\<lparr>DeadTime := 1 - (EvInput_rate c - EvLost_rate c) / EvInput_rate c\<rparr>
             else c\<lparr>DeadTime := 0\<rparr>);
          c2 = (if DeadTime c1 < 0 then c1\<lparr>DeadTime := 0\<rparr> else c1)
      in if DeadTime c2 > 1 then c2\<lparr>DeadTime := 1\<rparr> else c2)"

text \<open>Lines 170-179: the share of time in which the board was busy.\<close>

definition busy_time_step :: "ChStats \<Rightarrow> ChStats" where
  "busy_time_step c =
     (let c1 = c\<lparr>BusyTime := 0\<rparr>;
          c2 =
            (if LatestReadTstamp c1 > PrevReadTstamp c1 then
               (let period = (if EvInput_rate c1 > 0 then 1000000000 / EvInput_rate c1 else 0)
                in c1\<lparr>BusyTime :=
                         (real (unat (BusyTimeGap c1)) - period)
                           / real (unat (LatestReadTstamp c1 - PrevReadTstamp c1))\<rparr>)
             else c1);
          c3 = (if BusyTime c2 < 0 then c2\<lparr>BusyTime := 0\<rparr> else c2)
      in if BusyTime c3 > 1 then c3\<lparr>BusyTime := 1\<rparr> else c3)"

text \<open>Lines 182-186: the matching ratio of the software filters.\<close>

definition matching_ratio_step :: "ChStats \<Rightarrow> ChStats" where
  "matching_ratio_step c =
     (if EvProcessed_cnt c > EvProcessed_pcnt c
      then c\<lparr>MatchingRatio :=
                real (unat (EvFilt_cnt c - EvFilt_pcnt c))
                  / real (unat (EvProcessed_cnt c - EvProcessed_pcnt c))\<rparr>
      else c\<lparr>MatchingRatio := 0\<rparr>)"

text \<open>Lines 189-196: the current counters and time stamps become the previous ones.\<close>

definition save_counters :: "ChStats \<Rightarrow> ChStats" where
  "save_counters c =
     c\<lparr>EvRead_dcnt := EvRead_cnt c - EvRead_pcnt c,
       EvRead_pcnt := EvRead_cnt c,
       EvFilt_pcnt := EvFilt_cnt c,
       EvProcessed_pcnt := EvProcessed_cnt c,
       PrevReadTstamp := LatestReadTstamp c,
       PrevProcTstamp := LatestProcTstamp c,
       BusyTimeGap := 0\<rparr>"

text \<open>The channel after lines 88-156, where all its rates are computed, and after the whole body.\<close>

definition rates_before_clamp :: "WaveDemoRun \<Rightarrow> real \<Rightarrow> ChStats \<Rightarrow> ChStats" where
  "rates_before_clamp run acq c = lost_rate_step run (input_rate_step run acq (rates_step run c))"

definition update_channel :: "WaveDemoRun \<Rightarrow> real \<Rightarrow> ChStats \<Rightarrow> ChStats" where
  "update_channel run acq c =
     save_counters (matching_ratio_step (busy_time_step (dead_time_step (lost_clamp
       (rates_before_clamp run acq c)))))"

text \<open>Lines 85-199: the loops over the boards and their channels.\<close>

fun stat_channel_loop ::
  "WaveDemoConfig \<Rightarrow> WaveDemoRun \<Rightarrow> nat \<Rightarrow> nat list \<Rightarrow> WaveDemoStats \<Rightarrow> WaveDemoStats" where
  "stat_channel_loop cfg run b [] st = st"
| "stat_channel_loop cfg run b (ch # chs) st =
     stat_channel_loop cfg run b chs
       (if ChannelEnable cfg b ch
        then upd_chan st b ch (update_channel run (AcqRealTime st))
        else st)"

fun stat_board_loop ::
  "WaveDemoConfig \<Rightarrow> WaveDemoRun \<Rightarrow> nat list \<Rightarrow> WaveDemoStats \<Rightarrow> WaveDemoStats" where
  "stat_board_loop cfg run [] st = st"
| "stat_board_loop cfg run (b # bs) st =
     stat_board_loop cfg run bs (stat_channel_loop cfg run b (channels cfg b) st)"

definition UpdateStatistics ::
  "WaveDemoConfig \<Rightarrow> WaveDemoRun \<Rightarrow> 64 word \<Rightarrow> WaveDemoStats \<Rightarrow> int \<times> WaveDemoStats" where
  "UpdateStatistics cfg run CurrentTime st =
     (let st1 = stat_board_loop cfg run (boards cfg) (update_globals run CurrentTime st)
      in (0, st1\<lparr>PrevProcTstampAll := LatestProcTstampAll st1\<rparr>))"

subsection \<open>Example buffer states\<close>

definition example_slots :: "nat \<Rightarrow> WaveDemoEvent" where
  "example_slots = (\<lambda>i. \<lparr>TDC = (\<lambda>g. 0)\<rparr>)"

text \<open>An allocated buffer in an arbitrary state before its reset.\<close>

definition stale_buff :: WaveDemoBuffers where
  "stale_buff = \<lparr>buffer = (\<lambda>bd. Some example_slots),
     head = (\<lambda>bd. 5), tail = (\<lambda>bd. 7), tmp_pos = (\<lambda>bd. 9)\<rparr>"

text \<open>
  A wrapped buffer: \<open>head = 2\<close> is behind \<open>tail = 5\<close>, so the live slots are
  \<open>5, \<dots>, 1999, 0, 1\<close>.
\<close>

definition wrapped_buff :: WaveDemoBuffers where
  "wrapped_buff = \<lparr>buffer = (\<lambda>bd. Some example_slots),
     head = (\<lambda>bd. 2), tail = (\<lambda>bd. 5), tmp_pos = (\<lambda>bd. 5)\<rparr>"


subsection \<open>Example rounds\<close>

text \<open>
  Two boards with two enabled channels each and reference channel 0. In
  \<open>one_event_each t0 t1\<close> each buffer holds one event, with time stamp \<open>t0\<close> on board 0
  and \<open>t1\<close> on board 1, and every counter is zero. In \<open>stray_state\<close> the event of
  board 0 is 1000 ticks older than that of board 1; in \<open>window_edge_state\<close> the two are
  20 ticks (100 ns) apart; in \<open>wrap_state\<close> they are so far apart that the product
  with 5 passes \<open>2 ^ 64\<close>.
\<close>

definition two_boards :: WaveDemoConfig where
  "two_boards = \<lparr>NumBoards = 2, RefChannel = (\<lambda>bd. 0), Nch = (\<lambda>bd. 2),
     ChannelEnable = (\<lambda>bd ch. True), TOFstartBoard = 0\<rparr>"

text \<open>The same two boards with a reference board that is not one of them.\<close>

definition bad_ref_boards :: WaveDemoConfig where
  "bad_ref_boards = two_boards\<lparr>TOFstartBoard := 2\<rparr>"

definition slots_at :: "64 word \<Rightarrow> nat \<Rightarrow> WaveDemoEvent" where
  "slots_at t = (\<lambda>i. \<lparr>TDC = (\<lambda>g. t)\<rparr>)"

definition zero_chan :: ChStats where
  "zero_chan = \<lparr>EvRead_cnt = 0, EvRead_pcnt = 0, EvRead_dcnt = 0, EvRead_rate = 0,
     EvProcessed_cnt = 0, EvProcessed_pcnt = 0, EvInput_cnt = 0, EvInput_pcnt = 0,
     EvInput_rate = 0, EvFilt_cnt = 0, EvFilt_pcnt = 0, EvFilt_rate = 0,
     EvLost_cnt = 0, EvLost_pcnt = 0, EvLost_rate = 0, DeadTime = 0, MatchingRatio = 0,
     EvOutput_rate = 0, BusyTimeGap = 0, BusyTime = 0,
     LatestReadTstamp = 0, PrevReadTstamp = 0, LatestProcTstamp = 0, PrevProcTstamp = 0,
     ICRUpdateTime = 0, PrevICRUpdateTime = 0, LostTrgUpdateTime = 0,
     PrevLostTrgUpdateTime = 0\<rparr>"

definition zero_stats :: WaveDemoStats where
  "zero_stats = \<lparr>RxByte_cnt = 0, RxByte_pcnt = 0, RxByte_rate = Some 0, BlockRead_cnt = 0,
     UnSyncEv_cnt = 0, StartTime = 0, LastUpdateTime = 0, AcqRealTime = 0,
     RealTimeSource = 0, LatestProcTstampAll = 0, PrevProcTstampAll = 0,
     chan = (\<lambda>b ch. zero_chan)\<rparr>"

definition one_event_each :: "64 word \<Rightarrow> 64 word \<Rightarrow> SyncState" where
  "one_event_each t0 t1 =
     \<lparr>WDbuff = \<lparr>buffer = (\<lambda>bd. Some (slots_at (if bd = 0 then t0 else t1))),
                 head = (\<lambda>bd. 1), tail = (\<lambda>bd. 0), tmp_pos = (\<lambda>bd. 0)\<rparr>,
      WDstats = zero_stats, RefEvent = (\<lambda>bd. None), warnings = 0,
      events = (\<lambda>bd. None), TDC_min = 0\<rparr>"

definition stray_state :: SyncState where
  "stray_state = one_event_each 0 1000"

definition window_edge_state :: SyncState where
  "window_edge_state = one_event_each 0 20"

definition wrap_state :: SyncState where
  "wrap_state = one_event_each 0 3689348814741910324"

subsection \<open>Example statistics\<close>

text \<open>
  One board with one enabled channel, a run in integrated and one in instantaneous
  mode. In \<open>inconsistent_stats\<close> the channel has read 1000 events and counted 1000
  input triggers and 1200 lost triggers, each with its time stamp at one second, so
  that in integrated mode the input rate is 1000 and the lost rate 1200. In
  \<open>running_stats\<close> it has read 1000 events and accepted 600 in its first second. In
  \<open>unavailable_stats\<close> the input counter is all bits set and 50 triggers are lost.
  \<open>stopped_run\<close> is the integrated mode after the acquisition has stopped.
\<close>

definition one_channel :: WaveDemoConfig where
  "one_channel = \<lparr>NumBoards = 1, RefChannel = (\<lambda>bd. 0), Nch = (\<lambda>bd. 1),
     ChannelEnable = (\<lambda>bd ch. True), TOFstartBoard = 0\<rparr>"

definition integrated_run :: WaveDemoRun where
  "integrated_run = \<lparr>AcqRun = 1, IntegratedRates = 1\<rparr>"

definition instantaneous_run :: WaveDemoRun where
  "instantaneous_run = \<lparr>AcqRun = 1, IntegratedRates = 0\<rparr>"

definition stopped_run :: WaveDemoRun where
  "stopped_run = \<lparr>AcqRun = 0, IntegratedRates = 1\<rparr>"

definition inconsistent_stats :: WaveDemoStats where
  "inconsistent_stats = zero_stats\<lparr>chan := (\<lambda>b ch.
     zero_chan\<lparr>EvRead_cnt := 1000, LatestReadTstamp := 1000000000,
               EvInput_cnt := 1000, ICRUpdateTime := 1000000000,
               EvLost_cnt := 1200, LostTrgUpdateTime := 1000000000\<rparr>)\<rparr>"

definition running_stats :: WaveDemoStats where
  "running_stats = zero_stats\<lparr>chan := (\<lambda>b ch.
     zero_chan\<lparr>EvRead_cnt := 1000, EvFilt_cnt := 600, LatestReadTstamp := 1000000000\<rparr>)\<rparr>"

definition unavailable_stats :: WaveDemoStats where
  "unavailable_stats = zero_stats\<lparr>chan := (\<lambda>b ch.
     zero_chan\<lparr>EvRead_cnt := 1000, LatestReadTstamp := 1000000000,
               EvInput_cnt := 0xFFFFFFFFFFFFFFFF,
               EvLost_cnt := 50, LostTrgUpdateTime := 1000000000\<rparr>)\<rparr>"

section \<open>Properties of the circular buffer\<close>

lemma smod_step:
  "0 \<le> x \<Longrightarrow> x < EVT_BUF_SIZE \<Longrightarrow>
     (x + 1) smod EVT_BUF_SIZE = (if x + 1 = EVT_BUF_SIZE then 0 else x + 1)"
  by (auto simp: EVT_BUF_SIZE_def signed_modulo_int_def sgn_if)

lemma smod_step_range:
  "0 \<le> x \<Longrightarrow> x < EVT_BUF_SIZE \<Longrightarrow>
     0 \<le> (x + 1) smod EVT_BUF_SIZE \<and> (x + 1) smod EVT_BUF_SIZE < EVT_BUF_SIZE"
  by (auto simp: EVT_BUF_SIZE_def signed_modulo_int_def sgn_if)

lemma remove_loop_cursors:
  "cursors_ok buff bd \<Longrightarrow> cursors_ok (snd (remove_loop buff bd i num)) bd"
proof (induction buff bd i num rule: remove_loop.induct)
  case (1 buff bd i num)
  show ?case
  proof (cases "i < num \<and> WDBuff_empty buff bd = 0")
    case True
    let ?b = "buff\<lparr>tail := (tail buff)(bd := (tail buff bd + 1) smod EVT_BUF_SIZE)\<rparr>"
    from "1.prems" have "cursors_ok ?b bd"
      by (simp add: cursors_ok_def smod_step_range)
    with True "1.IH" have "cursors_ok (snd (remove_loop ?b bd (i + 1) num)) bd"
      by simp
    with True show ?thesis
      by (subst remove_loop.simps) simp
  next
    case False
    with "1.prems" show ?thesis
      by (subst remove_loop.simps) auto
  qed
qed

lemma added_loop_cursors:
  "cursors_ok buff bd \<Longrightarrow> cursors_ok (snd (added_loop buff bd i num)) bd"
proof (induction buff bd i num rule: added_loop.induct)
  case (1 buff bd i num)
  show ?case
  proof (cases "i < num \<and> WDBuff_full buff bd = 0")
    case True
    let ?b = "buff\<lparr>head := (head buff)(bd := (head buff bd + 1) smod EVT_BUF_SIZE)\<rparr>"
    from "1.prems" have "cursors_ok ?b bd"
      by (simp add: cursors_ok_def smod_step_range)
    with True "1.IH" have "cursors_ok (snd (added_loop ?b bd (i + 1) num)) bd"
      by simp
    with True show ?thesis
      by (subst added_loop.simps) simp
  next
    case False
    with "1.prems" show ?thesis
      by (subst added_loop.simps) auto
  qed
qed

lemma apply_buff_op_cursors:
  "cursors_ok buff bd \<Longrightarrow> cursors_ok (apply_buff_op bd x buff) bd"
proof (cases x)
  case Op_reset
  assume "cursors_ok buff bd"
  with Op_reset show ?thesis
    by (simp add: WDBuff_reset_def cursors_ok_def EVT_BUF_SIZE_def)
next
  case (Op_added n)
  assume "cursors_ok buff bd"
  with Op_added show ?thesis
    by (simp add: WDBuff_added_def added_loop_cursors)
next
  case (Op_remove n)
  assume "cursors_ok buff bd"
  with Op_remove show ?thesis
    by (simp add: WDBuff_remove_def remove_loop_cursors)
qed

lemma buff_trace_cursors:
  "cursors_ok buff bd \<Longrightarrow> s \<in> set (buff_trace bd ops buff) \<Longrightarrow> cursors_ok s bd"
proof (induction ops arbitrary: buff)
  case Nil
  then show ?case by simp
next
  case (Cons x xs)
  then show ?case
    using apply_buff_op_cursors [of buff bd x] by auto
qed

lemma used_space_bounds:
  "cursors_ok buff bd \<Longrightarrow>
     0 \<le> WDBuff_used_space buff bd \<and> WDBuff_used_space buff bd \<le> EVT_BUF_SIZE - 1"
  by (auto simp: cursors_ok_def WDBuff_used_space_def)

lemma full_iff_used:
  "cursors_ok buff bd \<Longrightarrow>
     (WDBuff_full buff bd = 1) = (WDBuff_used_space buff bd = EVT_BUF_SIZE - 1)"
  by (auto simp: cursors_ok_def WDBuff_used_space_def WDBuff_full_def smod_step)


text \<open>
  Claim C3. Start from the state a successful \<^verbatim>\<open>WDBuff_reset\<close> leaves and run any
  sequence of \<^verbatim>\<open>WDBuff_reset\<close>, \<^verbatim>\<open>WDBuff_added\<close> and \<^verbatim>\<open>WDBuff_remove\<close> calls on the
  board, with any arguments. In every state on the way the used space lies between 0
  and \<open>EVT_BUF_SIZE - 1\<close>, and \<^verbatim>\<open>WDBuff_full\<close> answers true exactly when the used
  space is \<open>EVT_BUF_SIZE - 1\<close>.
\<close>

theorem ring_buffer_capacity:
  "WDBuff_reset buff0 bd = (0, buff) \<Longrightarrow> s \<in> set (buff_trace bd ops buff) \<Longrightarrow>
     0 \<le> WDBuff_used_space s bd \<and> WDBuff_used_space s bd \<le> EVT_BUF_SIZE - 1 \<and>
     (WDBuff_full s bd \<noteq> 0 \<longleftrightarrow> WDBuff_used_space s bd = EVT_BUF_SIZE - 1)"
proof -
  assume r: "WDBuff_reset buff0 bd = (0, buff)" and s: "s \<in> set (buff_trace bd ops buff)"
  from r have "cursors_ok buff bd"
    by (auto simp: WDBuff_reset_def cursors_ok_def EVT_BUF_SIZE_def split: if_splits)
  with s have c: "cursors_ok s bd"
    by (rule buff_trace_cursors [rotated])
  have "WDBuff_full s bd \<noteq> 0 \<longleftrightarrow> WDBuff_full s bd = 1"
    by (simp add: WDBuff_full_def)
  with c show ?thesis
    using used_space_bounds [of s bd] full_iff_used [of s bd] by simp
qed

theorem ring_buffer_capacity_witness:
  "WDBuff_reset stale_buff 0 = (0, snd (WDBuff_reset stale_buff 0)) \<and>
   apply_buff_op 0 (Op_added 3) (snd (WDBuff_reset stale_buff 0))
     \<in> set (buff_trace 0 [Op_added 3, Op_remove 1] (snd (WDBuff_reset stale_buff 0))) \<and>
   WDBuff_used_space (apply_buff_op 0 (Op_added 3) (snd (WDBuff_reset stale_buff 0))) 0 = 3 \<and>
   0 \<le> WDBuff_used_space (apply_buff_op 0 (Op_added 3) (snd (WDBuff_reset stale_buff 0))) 0 \<and>
   WDBuff_used_space (apply_buff_op 0 (Op_added 3) (snd (WDBuff_reset stale_buff 0))) 0
     \<le> EVT_BUF_SIZE - 1 \<and>
   (WDBuff_full (apply_buff_op 0 (Op_added 3) (snd (WDBuff_reset stale_buff 0))) 0 \<noteq> 0 \<longleftrightarrow>
    WDBuff_used_space (apply_buff_op 0 (Op_added 3) (snd (WDBuff_reset stale_buff 0))) 0
      = EVT_BUF_SIZE - 1)"
proof -
  have h1: "WDBuff_reset stale_buff 0 = (0, snd (WDBuff_reset stale_buff 0))"
    by (simp add: WDBuff_reset_def stale_buff_def)
  have h2: "apply_buff_op 0 (Op_added 3) (snd (WDBuff_reset stale_buff 0))
     \<in> set (buff_trace 0 [Op_added 3, Op_remove 1] (snd (WDBuff_reset stale_buff 0)))"
    by simp
  have h3: "WDBuff_used_space (apply_buff_op 0 (Op_added 3) (snd (WDBuff_reset stale_buff 0))) 0 = 3"
    by (simp add: WDBuff_reset_def stale_buff_def WDBuff_added_def added_loop.simps
        WDBuff_full_def WDBuff_used_space_def EVT_BUF_SIZE_def signed_modulo_int_def)
  from ring_buffer_capacity [OF h1 h2] h1 h2 h3 show ?thesis by blast
qed

text \<open>
  While \<open>tail \<le> head\<close> (the buffer has not wrapped), \<^verbatim>\<open>WDBuff_set_position\<close> accepts
  exactly the live slots. Once \<open>head\<close> is behind \<open>tail\<close> its linear test
  \<^verbatim>\<open>pos >= head || pos < tail\<close> holds for every \<open>pos\<close>, and every position is refused.
\<close>

lemma set_position_unwrapped:
  "buffer buff bd \<noteq> None \<Longrightarrow> tail buff bd \<le> head buff bd \<Longrightarrow>
   WDBuff_set_position buff bd pos =
     (if in_circular_range buff bd pos
      then (0, buff\<lparr>tmp_pos := (tmp_pos buff)(bd := pos)\<rparr>) else (-1, buff))"
  by (auto simp: WDBuff_set_position_def in_circular_range_def WDBuff_empty_def)

lemma set_position_wrapped:
  "head buff bd < tail buff bd \<Longrightarrow> WDBuff_set_position buff bd pos = (-1, buff)"
  by (auto simp: WDBuff_set_position_def)

text \<open>
  Claim C6. In the wrapped buffer \<open>wrapped_buff\<close> (not empty, \<open>head = 2\<close>, \<open>tail = 5\<close>)
  position 6 is a live slot of the circular range from \<open>tail\<close> to \<open>head\<close>, and
  \<^verbatim>\<open>WDBuff_set_position\<close> fails on it with -1, the cursor unchanged: the claim's
  "succeeds if and only if \<open>pos\<close> is in the circular range" does not hold in wrapped
  states.
\<close>

theorem set_position_wrapped_rejects_live_slot:
  "WDBuff_empty wrapped_buff 0 = 0 \<and> in_circular_range wrapped_buff 0 6 \<and>
   WDBuff_set_position wrapped_buff 0 6 = (-1, wrapped_buff)"
  by (simp add: wrapped_buff_def WDBuff_empty_def in_circular_range_def
      WDBuff_set_position_def EVT_BUF_SIZE_def)

section \<open>Properties of a synchronization round\<close>

lemma peek_ok:
  "buffer buff bd \<noteq> None \<Longrightarrow> WDBuff_empty buff bd = 0 \<Longrightarrow>
     snd (WDBuff_peak buff bd ev) = oldest buff bd \<and> oldest buff bd \<noteq> None"
  by (auto simp: WDBuff_peak_def oldest_def split: option.splits)

lemma peek_loop_all:
  "\<forall>bd \<in> set bds. buffer buff bd \<noteq> None \<and> WDBuff_empty buff bd = 0 \<Longrightarrow>
     peek_loop buff bds ev = Some (\<lambda>bd. if bd \<in> set bds then oldest buff bd else ev bd)"
proof (induction bds arbitrary: ev)
  case Nil
  then show ?case by simp
next
  case (Cons b bds)
  then have ok: "snd (WDBuff_peak buff b (ev b)) = oldest buff b"
    and ne: "WDBuff_empty buff b = 0"
    using peek_ok [of buff b "ev b"] by auto
  from Cons.prems have "\<forall>bd \<in> set bds. buffer buff bd \<noteq> None \<and> WDBuff_empty buff bd = 0"
    by simp
  then have "peek_loop buff bds (ev(b := oldest buff b)) =
      Some (\<lambda>bd. if bd \<in> set bds then oldest buff bd else (ev(b := oldest buff b)) bd)"
    by (rule Cons.IH)
  moreover have "(\<lambda>bd. if bd \<in> set bds then oldest buff bd else (ev(b := oldest buff b)) bd)
      = (\<lambda>bd. if bd \<in> set (b # bds) then oldest buff bd else ev bd)"
    by (rule ext) simp
  ultimately show ?case
    using ok ne by simp
qed

lemma round_events_all:
  "all_peeked cfg s \<Longrightarrow>
     round_events cfg s =
       Some (\<lambda>bd. if bd \<in> set (boards cfg) then oldest (WDbuff s) bd else events s bd)"
  unfolding round_events_def all_peeked_def by (rule peek_loop_all)

lemma min_loop_fold:
  "\<forall>bd \<in> set bds. ev bd \<noteq> None \<Longrightarrow>
     min_loop cfg ev bds m = Some (fold (\<lambda>bd m. min (ref_TDC cfg bd (the (ev bd))) m) bds m)"
proof (induction bds arbitrary: m)
  case Nil
  then show ?case by simp
next
  case (Cons b bds)
  then obtain e where e: "ev b = Some e" by auto
  have "(if ref_TDC cfg b e < m then ref_TDC cfg b e else m) = min (ref_TDC cfg b e) m"
    by (auto simp: min_def)
  with Cons e show ?case by simp
qed

lemma fold_min_Min:
  fixes f :: "nat \<Rightarrow> 64 word"
  shows "fold (\<lambda>bd m. min (f bd) m) bds m = Min (insert m (f ` set bds))"
proof (induction bds arbitrary: m)
  case Nil
  then show ?case by simp
next
  case (Cons b bds)
  have "Min (insert (min (f b) m) (f ` set bds)) = Min (insert m (insert (f b) (f ` set bds)))"
  proof (cases "set bds = {}")
    case True
    then show ?thesis by (simp add: min.commute)
  next
    case False
    then show ?thesis by (simp add: min.assoc min.left_commute min.commute)
  qed
  with Cons show ?case by simp
qed


lemma boards_mem: "bd \<in> set (boards cfg) \<longleftrightarrow> int bd < NumBoards cfg"
  by (auto simp: boards_def)

lemma channels_mem: "ch \<in> set (channels cfg bd) \<longleftrightarrow> int ch < Nch cfg bd"
  by (auto simp: channels_def)

lemma round_TDC_min_all:
  assumes "all_peeked cfg s" and "0 < NumBoards cfg" and "round_events cfg s = Some ev"
  shows "round_TDC_min cfg ev (TDC_min s) = Some (round_min cfg s)"
proof -
  let ?n = "nat (NumBoards cfg)"
  let ?f = "\<lambda>bd. ref_TDC cfg bd (the (ev bd))"
  from assms(1,3) have ev: "ev = (\<lambda>bd. if bd \<in> set (boards cfg) then oldest (WDbuff s) bd else events s bd)"
    by (simp add: round_events_all)
  have some: "\<forall>bd \<in> set (boards cfg). ev bd \<noteq> None"
    using assms(1) peek_ok unfolding ev all_peeked_def by auto
  have f: "\<forall>bd \<in> set (boards cfg). ?f bd = peeked_TDC cfg s bd"
    using some unfolding ev peeked_TDC_def by auto
  have zero: "0 \<in> set (boards cfg)"
    using assms(2) by (simp add: boards_def)
  with some obtain e0 where e0: "ev 0 = Some e0" by auto
  have sub: "set [1..<?n] \<subseteq> set (boards cfg)"
    by (auto simp: boards_def)
  with some have "\<forall>bd \<in> set [1..<?n]. ev bd \<noteq> None" by blast
  then have "min_loop cfg ev [1..<?n] (?f 0) = Some (Min (insert (?f 0) (?f ` set [1..<?n])))"
    by (simp only: min_loop_fold fold_min_Min)
  moreover have "insert (?f 0) (?f ` set [1..<?n]) = ?f ` set (boards cfg)"
    using assms(2) by (auto simp: boards_def image_iff) (metis Suc_leI gr0I atLeastLessThan_iff)
  moreover have "?f ` set (boards cfg) = peeked_TDC cfg s ` set (boards cfg)"
    using f by (auto simp: image_iff)
  ultimately show ?thesis
    using e0 by (simp add: round_TDC_min_def round_min_def)
qed

lemma match_loop_result:
  "match_loop cfg ev m bds (g, c, r) =
     (\<lambda>bd. if bd \<in> set bds \<and> in_window cfg ev m bd then 1 else g bd,
      c + int (length (filter (in_window cfg ev m) bds)),
      \<lambda>bd. if bd \<in> set bds then (if int bd = TOFstartBoard cfg then ev bd else None) else r bd)"
proof (induction bds arbitrary: g c r)
  case Nil
  then show ?case by simp
next
  case (Cons b bds)
  show ?case
    by (simp add: Cons.IH) (auto intro!: ext)
qed

lemma remove_one:
  "WDBuff_remove buff bd 1 =
     (if buffer buff bd = None then (-1, buff)
      else if head buff bd = tail buff bd then (0, buff)
      else (1, buff\<lparr>tail := (tail buff)(bd := (tail buff bd + 1) smod EVT_BUF_SIZE)\<rparr>))"
  by (simp add: WDBuff_remove_def remove_loop.simps WDBuff_empty_def)

lemma processed_loop_processed:
  "distinct chs \<Longrightarrow>
   EvProcessed_cnt (chan (processed_loop cfg bd chs st) b c) =
     EvProcessed_cnt (chan st b c)
       + (if b = bd \<and> c \<in> set chs \<and> ChannelEnable cfg bd c then 1 else 0)"
  by (induction chs arbitrary: st) (auto simp: upd_chan_def)

lemma processed_loop_lost:
  "EvLost_cnt (chan (processed_loop cfg bd chs st) b c) = EvLost_cnt (chan st b c)"
  by (induction chs arbitrary: st) (auto simp: upd_chan_def)

lemma processed_loop_unsync:
  "UnSyncEv_cnt (processed_loop cfg bd chs st) = UnSyncEv_cnt st"
  by (induction chs arbitrary: st) (auto simp: upd_chan_def)

lemma lost_loop_lost:
  "distinct chs \<Longrightarrow>
   EvLost_cnt (chan (lost_loop cfg bd chs st) b c) =
     EvLost_cnt (chan st b c)
       + (if b = bd \<and> c \<in> set chs \<and> ChannelEnable cfg bd c then 1 else 0)"
  by (induction chs arbitrary: st) (auto simp: upd_chan_def)

lemma lost_loop_processed:
  "EvProcessed_cnt (chan (lost_loop cfg bd chs st) b c) = EvProcessed_cnt (chan st b c)"
  by (induction chs arbitrary: st) (auto simp: upd_chan_def)

lemma lost_loop_unsync:
  "UnSyncEv_cnt (lost_loop cfg bd chs st) = UnSyncEv_cnt st"
  by (induction chs arbitrary: st) (auto simp: upd_chan_def)


lemma EventProcessing_ok:
  "EventProcessing cfg ref bd ch = (if reference_ok cfg ref then Some 0 else None)"
  by (auto simp: EventProcessing_def reference_ok_def split: option.splits)

lemma filt_loop_lost:
  "EvLost_cnt (chan (snd (filt_loop cfg tp ref bd chs st)) b c) = EvLost_cnt (chan st b c)"
  by (induction chs arbitrary: st) (auto simp: upd_chan_def EventProcessing_ok)

lemma filt_loop_processed:
  "EvProcessed_cnt (chan (snd (filt_loop cfg tp ref bd chs st)) b c) = EvProcessed_cnt (chan st b c)"
  by (induction chs arbitrary: st) (auto simp: upd_chan_def EventProcessing_ok)

lemma filt_loop_unsync:
  "UnSyncEv_cnt (snd (filt_loop cfg tp ref bd chs st)) = UnSyncEv_cnt st"
  by (induction chs arbitrary: st) (auto simp: upd_chan_def EventProcessing_ok)

lemma filt_loop_Continue:
  "reference_ok cfg ref \<Longrightarrow> fst (filt_loop cfg tp ref bd chs st) = Continue"
  by (induction chs arbitrary: st) (auto simp: EventProcessing_ok)

lemmas chan_loop_simps =
  processed_loop_lost processed_loop_unsync lost_loop_processed lost_loop_unsync
  filt_loop_lost filt_loop_processed filt_loop_unsync

lemma distinct_channels: "distinct (channels cfg bd)"
  by (simp add: channels_def)

lemma distinct_boards: "distinct (boards cfg)"
  by (simp add: boards_def)

text \<open>The step of one board, with the result of the filter loop named.\<close>

lemma update_board_alt:
  "update_board cfg tp g n bd s =
     (if g bd = 0 then (Continue, s)
      else if n \<noteq> NumBoards cfg then
        (Continue,
         s\<lparr>WDstats := processed_loop cfg bd (channels cfg bd)
                        (lost_loop cfg bd (channels cfg bd) (WDstats s)),
           WDbuff := snd (WDBuff_remove (WDbuff s) bd 1)\<rparr>)
      else if fst (filt_loop cfg tp (RefEvent s) bd (channels cfg bd) (WDstats s)) = Continue then
        (Continue,
         s\<lparr>WDstats := processed_loop cfg bd (channels cfg bd)
                        (snd (filt_loop cfg tp (RefEvent s) bd (channels cfg bd) (WDstats s))),
           WDbuff := snd (WDBuff_remove (WDbuff s) bd 1)\<rparr>)
      else
        (fst (filt_loop cfg tp (RefEvent s) bd (channels cfg bd) (WDstats s)),
         s\<lparr>WDstats := snd (filt_loop cfg tp (RefEvent s) bd (channels cfg bd) (WDstats s))\<rparr>))"
  by (simp add: update_board_def split: prod.splits round_outcome.splits)

lemma update_board_Continue:
  "n \<noteq> NumBoards cfg \<or> reference_ok cfg (RefEvent s) \<Longrightarrow>
     fst (update_board cfg tp g n bd s) = Continue"
  by (auto simp: update_board_alt filt_loop_Continue)

lemma update_board_processed:
  "fst (update_board cfg tp g n bd s) = Continue \<Longrightarrow>
   EvProcessed_cnt (chan (WDstats (snd (update_board cfg tp g n bd s))) b c) =
     EvProcessed_cnt (chan (WDstats s) b c)
       + (if g bd \<noteq> 0 \<and> b = bd \<and> int c < Nch cfg bd \<and> ChannelEnable cfg bd c then 1 else 0)"
  by (simp add: update_board_alt processed_loop_processed distinct_channels chan_loop_simps
      channels_mem split: if_splits)

lemma update_board_lost:
  "EvLost_cnt (chan (WDstats (snd (update_board cfg tp g n bd s))) b c) =
     EvLost_cnt (chan (WDstats s) b c)
       + (if g bd \<noteq> 0 \<and> n \<noteq> NumBoards cfg \<and> b = bd \<and> int c < Nch cfg bd
             \<and> ChannelEnable cfg bd c then 1 else 0)"
  by (simp add: update_board_alt lost_loop_lost distinct_channels chan_loop_simps channels_mem)

lemma update_board_scalars:
  "UnSyncEv_cnt (WDstats (snd (update_board cfg tp g n bd s))) = UnSyncEv_cnt (WDstats s)"
  "warnings (snd (update_board cfg tp g n bd s)) = warnings s"
  "RefEvent (snd (update_board cfg tp g n bd s)) = RefEvent s"
  "head (WDbuff (snd (update_board cfg tp g n bd s))) = head (WDbuff s)"
  "buffer (WDbuff (snd (update_board cfg tp g n bd s))) = buffer (WDbuff s)"
  by (simp_all add: update_board_alt chan_loop_simps remove_one)

lemma update_board_tail:
  "fst (update_board cfg tp g n bd s) = Continue \<Longrightarrow>
   tail (WDbuff (snd (update_board cfg tp g n bd s))) b =
     (if g bd \<noteq> 0 \<and> b = bd \<and> buffer (WDbuff s) bd \<noteq> None
         \<and> head (WDbuff s) bd \<noteq> tail (WDbuff s) bd
      then (tail (WDbuff s) bd + 1) smod EVT_BUF_SIZE else tail (WDbuff s) b)"
  by (auto simp: update_board_alt remove_one split: if_splits)

lemma update_loop_Cons:
  "update_loop cfg tp g n (bd # bds) s =
     (if fst (update_board cfg tp g n bd s) = Continue
      then update_loop cfg tp g n bds (snd (update_board cfg tp g n bd s))
      else update_board cfg tp g n bd s)"
  by (simp add: update_loop.simps(2) split: prod.splits round_outcome.splits)

lemma update_loop_Continue:
  "n \<noteq> NumBoards cfg \<or> reference_ok cfg (RefEvent s) \<Longrightarrow>
     fst (update_loop cfg tp g n bds s) = Continue"
proof (induction bds arbitrary: s)
  case Nil
  then show ?case by simp
next
  case (Cons bd bds)
  from Cons.prems have c: "fst (update_board cfg tp g n bd s) = Continue"
    by (rule update_board_Continue)
  from Cons.prems have "n \<noteq> NumBoards cfg
      \<or> reference_ok cfg (RefEvent (snd (update_board cfg tp g n bd s)))"
    by (simp add: update_board_scalars)
  then have "fst (update_loop cfg tp g n bds (snd (update_board cfg tp g n bd s))) = Continue"
    by (rule Cons.IH)
  with c show ?case
    by (simp add: update_loop_Cons)
qed

lemma update_loop_processed:
  "distinct bds \<Longrightarrow> fst (update_loop cfg tp g n bds s) = Continue \<Longrightarrow>
   EvProcessed_cnt (chan (WDstats (snd (update_loop cfg tp g n bds s))) b c) =
     EvProcessed_cnt (chan (WDstats s) b c)
       + (if b \<in> set bds \<and> g b \<noteq> 0 \<and> int c < Nch cfg b \<and> ChannelEnable cfg b c then 1 else 0)"
proof (induction bds arbitrary: s)
  case Nil
  then show ?case by simp
next
  case (Cons bd bds)
  let ?s1 = "snd (update_board cfg tp g n bd s)"
  from Cons.prems(2) have c: "fst (update_board cfg tp g n bd s) = Continue"
    by (simp add: update_loop_Cons split: if_splits)
  with Cons.prems(2) have c': "fst (update_loop cfg tp g n bds ?s1) = Continue"
    by (simp add: update_loop_Cons)
  from Cons.prems(1) have d: "distinct bds" and nin: "bd \<notin> set bds"
    by simp_all
  have "EvProcessed_cnt (chan (WDstats (snd (update_loop cfg tp g n bds ?s1))) b c) =
      EvProcessed_cnt (chan (WDstats ?s1) b c)
        + (if b \<in> set bds \<and> g b \<noteq> 0 \<and> int c < Nch cfg b \<and> ChannelEnable cfg b c then 1 else 0)"
    using d c' by (rule Cons.IH)
  with c nin show ?case
    by (auto simp: update_loop_Cons update_board_processed)
qed

lemma update_loop_lost:
  "distinct bds \<Longrightarrow>
   EvLost_cnt (chan (WDstats (snd (update_loop cfg tp g n bds s))) b c) =
     EvLost_cnt (chan (WDstats s) b c)
       + (if b \<in> set bds \<and> g b \<noteq> 0 \<and> n \<noteq> NumBoards cfg \<and> int c < Nch cfg b
             \<and> ChannelEnable cfg b c then 1 else 0)"
proof (induction bds arbitrary: s)
  case Nil
  then show ?case by simp
next
  case (Cons bd bds)
  let ?s1 = "snd (update_board cfg tp g n bd s)"
  from Cons.prems have d: "distinct bds" and nin: "bd \<notin> set bds"
    by simp_all
  show ?case
  proof (cases "fst (update_board cfg tp g n bd s) = Continue")
    case True
    have "EvLost_cnt (chan (WDstats (snd (update_loop cfg tp g n bds ?s1))) b c) =
        EvLost_cnt (chan (WDstats ?s1) b c)
          + (if b \<in> set bds \<and> g b \<noteq> 0 \<and> n \<noteq> NumBoards cfg \<and> int c < Nch cfg b
                \<and> ChannelEnable cfg b c then 1 else 0)"
      using d by (rule Cons.IH)
    with True nin show ?thesis
      by (auto simp: update_loop_Cons update_board_lost)
  next
    case False
    then have "n = NumBoards cfg"
      using update_board_Continue [of n cfg s tp g bd] by blast
    with False show ?thesis
      by (simp add: update_loop_Cons update_board_lost)
  qed
qed

lemma update_loop_scalars:
  "UnSyncEv_cnt (WDstats (snd (update_loop cfg tp g n bds s))) = UnSyncEv_cnt (WDstats s)"
  "warnings (snd (update_loop cfg tp g n bds s)) = warnings s"
  "head (WDbuff (snd (update_loop cfg tp g n bds s))) = head (WDbuff s)"
  "buffer (WDbuff (snd (update_loop cfg tp g n bds s))) = buffer (WDbuff s)"
  by (induction bds arbitrary: s) (simp_all add: update_loop_Cons update_board_scalars)

lemma update_loop_tail:
  "distinct bds \<Longrightarrow> fst (update_loop cfg tp g n bds s) = Continue \<Longrightarrow>
   tail (WDbuff (snd (update_loop cfg tp g n bds s))) b =
     (if b \<in> set bds \<and> g b \<noteq> 0 \<and> buffer (WDbuff s) b \<noteq> None
         \<and> head (WDbuff s) b \<noteq> tail (WDbuff s) b
      then (tail (WDbuff s) b + 1) smod EVT_BUF_SIZE else tail (WDbuff s) b)"
proof (induction bds arbitrary: s)
  case Nil
  then show ?case by simp
next
  case (Cons bd bds)
  let ?s1 = "snd (update_board cfg tp g n bd s)"
  from Cons.prems(2) have c: "fst (update_board cfg tp g n bd s) = Continue"
    by (simp add: update_loop_Cons split: if_splits)
  with Cons.prems(2) have c': "fst (update_loop cfg tp g n bds ?s1) = Continue"
    by (simp add: update_loop_Cons)
  from Cons.prems(1) have d: "distinct bds" and nin: "bd \<notin> set bds"
    by simp_all
  have "tail (WDbuff (snd (update_loop cfg tp g n bds ?s1))) b =
      (if b \<in> set bds \<and> g b \<noteq> 0 \<and> buffer (WDbuff ?s1) b \<noteq> None
          \<and> head (WDbuff ?s1) b \<noteq> tail (WDbuff ?s1) b
       then (tail (WDbuff ?s1) b + 1) smod EVT_BUF_SIZE else tail (WDbuff ?s1) b)"
    using d c' by (rule Cons.IH)
  with c nin show ?case
    by (auto simp: update_loop_Cons update_board_tail update_board_scalars)
qed

lemma round_parts:
  assumes "all_peeked cfg s" and "0 < NumBoards cfg"
  obtains ev g n ref where
    "round_events cfg s = Some ev"
    "\<forall>bd \<in> set (boards cfg). ev bd = oldest (WDbuff s) bd \<and> ev bd \<noteq> None"
    "round_TDC_min cfg ev (TDC_min s) = Some (round_min cfg s)"
    "round_match cfg s ev (round_min cfg s) = (g, n, ref)"
    "\<forall>bd. g bd \<noteq> 0 \<longleftrightarrow> bd \<in> set (boards cfg) \<and> in_window cfg ev (round_min cfg s) bd"
    "n = int (length (filter (in_window cfg ev (round_min cfg s)) (boards cfg)))"
    "\<forall>bd \<in> set (boards cfg). ref bd = (if int bd = TOFstartBoard cfg then ev bd else None)"
proof -
  let ?ev = "\<lambda>bd. if bd \<in> set (boards cfg) then oldest (WDbuff s) bd else events s bd"
  let ?m = "round_min cfg s"
  have 1: "round_events cfg s = Some ?ev"
    using assms(1) by (rule round_events_all)
  have 2: "\<forall>bd \<in> set (boards cfg). ?ev bd = oldest (WDbuff s) bd \<and> ?ev bd \<noteq> None"
    using assms(1) peek_ok unfolding all_peeked_def by auto
  have 3: "round_TDC_min cfg ?ev (TDC_min s) = Some ?m"
    using assms 1 by (rule round_TDC_min_all)
  let ?g = "\<lambda>bd. if bd \<in> set (boards cfg) \<and> in_window cfg ?ev ?m bd then 1 else (0::int)"
  let ?n = "int (length (filter (in_window cfg ?ev ?m) (boards cfg)))"
  let ?r = "\<lambda>bd. if bd \<in> set (boards cfg)
                 then (if int bd = TOFstartBoard cfg then ?ev bd else None) else RefEvent s bd"
  have 4: "round_match cfg s ?ev ?m = (?g, ?n, ?r)"
    by (simp add: round_match_def match_loop_result)
  have 5: "\<forall>bd. ?g bd \<noteq> 0 \<longleftrightarrow> bd \<in> set (boards cfg) \<and> in_window cfg ?ev ?m bd"
    by simp
  from 1 2 3 4 5 show thesis
    by (rule that) simp_all
qed

lemma in_window_peeked:
  "ev bd = oldest (WDbuff s) bd \<Longrightarrow> ev bd \<noteq> None \<Longrightarrow>
     in_window cfg ev m bd \<longleftrightarrow> (peeked_TDC cfg s bd - m) * 5 \<le> 100"
  by (auto simp: in_window_def TDCdiff_ns_def peeked_TDC_def SYNC_WIN_def)

lemma matched_iff:
  assumes "all_peeked cfg s" and "0 < NumBoards cfg"
  shows "matched cfg s bd \<longleftrightarrow>
     bd \<in> set (boards cfg) \<and> (peeked_TDC cfg s bd - round_min cfg s) * 5 \<le> 100"
proof -
  from assms obtain ev g n ref where p:
    "round_events cfg s = Some ev"
    "\<forall>bd \<in> set (boards cfg). ev bd = oldest (WDbuff s) bd \<and> ev bd \<noteq> None"
    "round_TDC_min cfg ev (TDC_min s) = Some (round_min cfg s)"
    "round_match cfg s ev (round_min cfg s) = (g, n, ref)"
    "\<forall>bd. g bd \<noteq> 0 \<longleftrightarrow> bd \<in> set (boards cfg) \<and> in_window cfg ev (round_min cfg s) bd"
    by (rule round_parts)
  have g: "matched cfg s bd \<longleftrightarrow> g bd \<noteq> 0"
    by (simp add: matched_def p(1,3,4))
  show ?thesis
  proof (cases "bd \<in> set (boards cfg)")
    case True
    with p(2) have "ev bd = oldest (WDbuff s) bd" and "ev bd \<noteq> None"
      by blast+
    then have "in_window cfg ev (round_min cfg s) bd
        \<longleftrightarrow> (peeked_TDC cfg s bd - round_min cfg s) * 5 \<le> 100"
      by (rule in_window_peeked)
    with True g p(5) show ?thesis by blast
  next
    case False
    with g p(5) show ?thesis by blast
  qed
qed

lemma count_sync_evt_eq:
  assumes "all_peeked cfg s" and "0 < NumBoards cfg"
  shows "count_sync_evt cfg s = int (length (filter (matched cfg s) (boards cfg)))"
proof -
  from assms obtain ev g n ref where p:
    "round_events cfg s = Some ev"
    "\<forall>bd \<in> set (boards cfg). ev bd = oldest (WDbuff s) bd \<and> ev bd \<noteq> None"
    "round_TDC_min cfg ev (TDC_min s) = Some (round_min cfg s)"
    "round_match cfg s ev (round_min cfg s) = (g, n, ref)"
    "\<forall>bd. g bd \<noteq> 0 \<longleftrightarrow> bd \<in> set (boards cfg) \<and> in_window cfg ev (round_min cfg s) bd"
    "n = int (length (filter (in_window cfg ev (round_min cfg s)) (boards cfg)))"
    by (rule round_parts)
  have m: "\<And>bd. matched cfg s bd \<longleftrightarrow> g bd \<noteq> 0"
    by (simp add: matched_def p(1,3,4))
  have "filter (in_window cfg ev (round_min cfg s)) (boards cfg) = filter (matched cfg s) (boards cfg)"
    by (rule filter_cong) (auto simp: m p(5))
  then show ?thesis
    by (simp add: count_sync_evt_def p(1,3,4,6))
qed

text \<open>The state a round leaves, in terms of \<open>matched\<close> and \<open>count_sync_evt\<close>.\<close>

lemma sync_round_result:
  assumes "all_peeked cfg s" and "0 < NumBoards cfg"
  obtains g ev ref where
    "\<forall>bd. g bd \<noteq> 0 \<longleftrightarrow> matched cfg s bd"
    "sync_round cfg tp s =
       update_loop cfg tp g (count_sync_evt cfg s) (boards cfg)
         (count_unsync cfg (count_sync_evt cfg s)
            (s\<lparr>events := ev, TDC_min := round_min cfg s, RefEvent := ref\<rparr>))"
    "\<forall>bd \<in> set (boards cfg). int bd = TOFstartBoard cfg \<longrightarrow> ref bd \<noteq> None"
proof -
  from assms obtain ev g n ref where p:
    "round_events cfg s = Some ev"
    "\<forall>bd \<in> set (boards cfg). ev bd = oldest (WDbuff s) bd \<and> ev bd \<noteq> None"
    "round_TDC_min cfg ev (TDC_min s) = Some (round_min cfg s)"
    "round_match cfg s ev (round_min cfg s) = (g, n, ref)"
    "\<forall>bd. g bd \<noteq> 0 \<longleftrightarrow> bd \<in> set (boards cfg) \<and> in_window cfg ev (round_min cfg s) bd"
    "n = int (length (filter (in_window cfg ev (round_min cfg s)) (boards cfg)))"
    "\<forall>bd \<in> set (boards cfg). ref bd = (if int bd = TOFstartBoard cfg then ev bd else None)"
    by (rule round_parts)
  have m: "\<forall>bd. g bd \<noteq> 0 \<longleftrightarrow> matched cfg s bd"
    by (simp add: matched_def p(1,3,4))
  have n: "count_sync_evt cfg s = n"
    by (simp add: count_sync_evt_def p(1,3,4))
  have r: "sync_round cfg tp s =
       update_loop cfg tp g (count_sync_evt cfg s) (boards cfg)
         (count_unsync cfg (count_sync_evt cfg s)
            (s\<lparr>events := ev, TDC_min := round_min cfg s, RefEvent := ref\<rparr>))"
    by (simp add: sync_round_def p(1,3,4) n)
  have "\<forall>bd \<in> set (boards cfg). int bd = TOFstartBoard cfg \<longrightarrow> ref bd \<noteq> None"
  proof (intro ballI impI)
    fix bd
    assume bd: "bd \<in> set (boards cfg)" and t: "int bd = TOFstartBoard cfg"
    from p(7) bd t have "ref bd = ev bd"
      by simp
    moreover from p(2) bd have "ev bd \<noteq> None"
      by blast
    ultimately show "ref bd \<noteq> None"
      by simp
  qed
  with m r show thesis by (rule that)
qed

lemma count_unsync_fields:
  "chan (WDstats (count_unsync cfg n s)) = chan (WDstats s)"
  "WDbuff (count_unsync cfg n s) = WDbuff s"
  "RefEvent (count_unsync cfg n s) = RefEvent s"
  by (simp_all add: count_unsync_def Let_def)

lemmas ex_defs = two_boards_def slots_at_def zero_chan_def zero_stats_def one_event_each_def
  stray_state_def window_edge_state_def wrap_state_def

lemmas round_defs = sync_round_def round_events_def round_TDC_min_def round_match_def
  boards_def channels_def WDBuff_peak_def WDBuff_empty_def ref_TDC_def in_window_def
  TDCdiff_ns_def SYNC_WIN_def update_board_def count_unsync_def upd_chan_def
  WDBuff_remove_def remove_loop.simps EVT_BUF_SIZE_def matched_def count_sync_evt_def
  all_peeked_def WDBuff_used_space_def Let_def signed_modulo_int_def signed_divide_int_def
  upt_conv_Cons update_loop.simps EventProcessing_def MAX_BD_def


lemma used_space_after_remove:
  assumes "cursors_ok buff bd" and "head buff bd \<noteq> tail buff bd"
  shows "WDBuff_used_space (buff\<lparr>tail := (tail buff)(bd := (tail buff bd + 1) smod EVT_BUF_SIZE)\<rparr>) bd
           = WDBuff_used_space buff bd - 1"
  using assms by (auto simp: cursors_ok_def WDBuff_used_space_def smod_step)

lemma used_space_cong:
  "head b1 bd = head b2 bd \<Longrightarrow> tail b1 bd = tail b2 bd \<Longrightarrow>
     WDBuff_used_space b1 bd = WDBuff_used_space b2 bd"
  by (simp add: WDBuff_used_space_def)

text \<open>
  The fields of a board after a round in which every board was peeked. The lost
  counters and the scalar fields are the same whether or not the round runs to its
  end; the cursors and the processed counters are given for a round that does.
\<close>

lemma sync_round_fields:
  assumes "all_peeked cfg s" and "0 < NumBoards cfg" and "sync_round cfg tp s = (r, s')"
  shows "head (WDbuff s') = head (WDbuff s)"
    and "EvLost_cnt (chan (WDstats s') bd ch) =
           EvLost_cnt (chan (WDstats s) bd ch)
             + (if matched cfg s bd \<and> count_sync_evt cfg s \<noteq> NumBoards cfg
                   \<and> int ch < Nch cfg bd \<and> ChannelEnable cfg bd ch
                then 1 else 0)"
    and "UnSyncEv_cnt (WDstats s') =
           (if count_sync_evt cfg s = NumBoards cfg then UnSyncEv_cnt (WDstats s)
            else UnSyncEv_cnt (WDstats s)
                   + (word_of_int (NumBoards cfg) - word_of_int (count_sync_evt cfg s)))"
    and "warnings s' =
           (if count_sync_evt cfg s \<noteq> NumBoards cfg \<and> UnSyncEv_cnt (WDstats s') = 0
            then warnings s + 1 else warnings s)"
    and "r = Continue \<Longrightarrow> tail (WDbuff s') bd =
           (if matched cfg s bd then (tail (WDbuff s) bd + 1) smod EVT_BUF_SIZE
            else tail (WDbuff s) bd)"
    and "r = Continue \<Longrightarrow> EvProcessed_cnt (chan (WDstats s') bd ch) =
           EvProcessed_cnt (chan (WDstats s) bd ch)
             + (if matched cfg s bd \<and> int ch < Nch cfg bd \<and> ChannelEnable cfg bd ch
                then 1 else 0)"
    and "count_sync_evt cfg s \<noteq> NumBoards cfg
           \<or> (0 \<le> TOFstartBoard cfg \<and> TOFstartBoard cfg < NumBoards cfg
                \<and> NumBoards cfg \<le> MAX_BD) \<Longrightarrow> r = Continue"
proof -
  from assms(1,2) obtain g ev ref where g: "\<forall>bd. g bd \<noteq> 0 \<longleftrightarrow> matched cfg s bd"
    and res: "sync_round cfg tp s =
       update_loop cfg tp g (count_sync_evt cfg s) (boards cfg)
         (count_unsync cfg (count_sync_evt cfg s)
            (s\<lparr>events := ev, TDC_min := round_min cfg s, RefEvent := ref\<rparr>))"
    and ref: "\<forall>bd \<in> set (boards cfg). int bd = TOFstartBoard cfg \<longrightarrow> ref bd \<noteq> None"
    by (rule sync_round_result)
  let ?s1 = "s\<lparr>events := ev, TDC_min := round_min cfg s, RefEvent := ref\<rparr>"
  let ?s2 = "count_unsync cfg (count_sync_evt cfg s) ?s1"
  let ?u = "update_loop cfg tp g (count_sync_evt cfg s) (boards cfg) ?s2"
  from res assms(3) have "?u = (r, s')"
    by simp
  then have s': "s' = snd ?u" and r: "r = fst ?u"
    by simp_all
  show "head (WDbuff s') = head (WDbuff s)"
    by (simp add: s' update_loop_scalars count_unsync_fields)
  have in_boards: "matched cfg s bd \<Longrightarrow> bd \<in> set (boards cfg)"
    using matched_iff [OF assms(1,2)] by blast
  have ready: "bd \<in> set (boards cfg) \<Longrightarrow>
      buffer (WDbuff s) bd \<noteq> None \<and> head (WDbuff s) bd \<noteq> tail (WDbuff s) bd"
    using assms(1) by (auto simp: all_peeked_def WDBuff_empty_def split: if_splits)
  show "EvLost_cnt (chan (WDstats s') bd ch) =
           EvLost_cnt (chan (WDstats s) bd ch)
             + (if matched cfg s bd \<and> count_sync_evt cfg s \<noteq> NumBoards cfg
                   \<and> int ch < Nch cfg bd \<and> ChannelEnable cfg bd ch
                then 1 else 0)"
    using g in_boards
    by (simp add: s' update_loop_lost distinct_boards count_unsync_fields)
  show u: "UnSyncEv_cnt (WDstats s') =
           (if count_sync_evt cfg s = NumBoards cfg then UnSyncEv_cnt (WDstats s)
            else UnSyncEv_cnt (WDstats s)
                   + (word_of_int (NumBoards cfg) - word_of_int (count_sync_evt cfg s)))"
    by (simp add: s' update_loop_scalars count_unsync_def Let_def)
  show "warnings s' =
           (if count_sync_evt cfg s \<noteq> NumBoards cfg \<and> UnSyncEv_cnt (WDstats s') = 0
            then warnings s + 1 else warnings s)"
    unfolding u by (simp add: s' update_loop_scalars count_unsync_def Let_def)
  show "tail (WDbuff s') bd =
           (if matched cfg s bd then (tail (WDbuff s) bd + 1) smod EVT_BUF_SIZE
            else tail (WDbuff s) bd)" if "r = Continue"
  proof -
    from that r have c: "fst ?u = Continue" by simp
    show ?thesis
      using g in_boards ready
      by (simp add: s' update_loop_tail [OF distinct_boards c] count_unsync_fields)
  qed
  show "EvProcessed_cnt (chan (WDstats s') bd ch) =
           EvProcessed_cnt (chan (WDstats s) bd ch)
             + (if matched cfg s bd \<and> int ch < Nch cfg bd \<and> ChannelEnable cfg bd ch
                then 1 else 0)" if "r = Continue"
  proof -
    from that r have c: "fst ?u = Continue" by simp
    show ?thesis
      using g in_boards
      by (simp add: s' update_loop_processed [OF distinct_boards c] count_unsync_fields)
  qed
  show "r = Continue"
    if "count_sync_evt cfg s \<noteq> NumBoards cfg
          \<or> (0 \<le> TOFstartBoard cfg \<and> TOFstartBoard cfg < NumBoards cfg
               \<and> NumBoards cfg \<le> MAX_BD)"
  proof -
    have "reference_ok cfg ref"
      if t: "0 \<le> TOFstartBoard cfg" "TOFstartBoard cfg < NumBoards cfg" "NumBoards cfg \<le> MAX_BD"
    proof -
      from t have "nat (TOFstartBoard cfg) \<in> set (boards cfg)"
        by (simp add: boards_mem)
      with ref t(1) have "ref (nat (TOFstartBoard cfg)) \<noteq> None"
        by simp
      with t show ?thesis
        by (simp add: reference_ok_def)
    qed
    with that have "count_sync_evt cfg s \<noteq> NumBoards cfg \<or> reference_ok cfg (RefEvent ?s2)"
      by (auto simp: count_unsync_fields)
    then have "fst ?u = Continue"
      by (rule update_loop_Continue)
    with r show ?thesis by simp
  qed
qed

lemma unmatched_count:
  assumes "all_peeked cfg s" and "0 < NumBoards cfg"
  shows "(word_of_int (NumBoards cfg) - word_of_int (count_sync_evt cfg s) :: 64 word)
           = of_nat (length (filter (\<lambda>bd. \<not> matched cfg s bd) (boards cfg)))"
proof -
  let ?m = "length (filter (matched cfg s) (boards cfg))"
  let ?u = "length (filter (\<lambda>bd. \<not> matched cfg s bd) (boards cfg))"
  have "?m + ?u = length (boards cfg)"
    by (rule sum_length_filter_compl)
  moreover have "int (length (boards cfg)) = NumBoards cfg"
    using assms(2) by (simp add: boards_def)
  ultimately have "NumBoards cfg - int ?m = int ?u"
    by linarith
  moreover have "count_sync_evt cfg s = int ?m"
    using assms by (rule count_sync_evt_eq)
  ultimately have "(word_of_int (NumBoards cfg - count_sync_evt cfg s) :: 64 word) = of_nat ?u"
    by simp
  then show ?thesis by simp
qed

lemma round_effect_on_board:
  assumes "all_peeked cfg s" and "bd \<in> set (boards cfg)"
    and "sync_round cfg tp s = (Continue, s')"
  shows
    "(matched cfg s bd \<longrightarrow>
       tail (WDbuff s') bd = (tail (WDbuff s) bd + 1) smod EVT_BUF_SIZE \<and>
       head (WDbuff s') bd = head (WDbuff s) bd \<and>
       (cursors_ok (WDbuff s) bd \<longrightarrow>
          WDBuff_used_space (WDbuff s') bd = WDBuff_used_space (WDbuff s) bd - 1) \<and>
       (\<forall>ch. int ch < Nch cfg bd \<and> ChannelEnable cfg bd ch \<longrightarrow>
          EvProcessed_cnt (chan (WDstats s') bd ch)
            = EvProcessed_cnt (chan (WDstats s) bd ch) + 1)) \<and>
    (\<not> matched cfg s bd \<longrightarrow>
       tail (WDbuff s') bd = tail (WDbuff s) bd \<and>
       head (WDbuff s') bd = head (WDbuff s) bd \<and>
       WDBuff_used_space (WDbuff s') bd = WDBuff_used_space (WDbuff s) bd \<and>
       (\<forall>ch. EvProcessed_cnt (chan (WDstats s') bd ch)
            = EvProcessed_cnt (chan (WDstats s) bd ch)))"
proof -
  from assms(2) have nb: "0 < NumBoards cfg"
    by (simp add: boards_mem)
  note f = sync_round_fields [OF assms(1) nb assms(3)]
  note tl = f(5) [OF refl] and pr = f(6) [OF refl]
  have ne: "head (WDbuff s) bd \<noteq> tail (WDbuff s) bd"
    using assms(1,2) by (auto simp: all_peeked_def WDBuff_empty_def split: if_splits)
  have used: "WDBuff_used_space (WDbuff s') bd = WDBuff_used_space (WDbuff s) bd - 1"
    if "matched cfg s bd" and "cursors_ok (WDbuff s) bd"
  proof -
    have "WDBuff_used_space (WDbuff s') bd =
        WDBuff_used_space ((WDbuff s)\<lparr>tail := (tail (WDbuff s))
          (bd := (tail (WDbuff s) bd + 1) smod EVT_BUF_SIZE)\<rparr>) bd"
      by (rule used_space_cong) (simp_all add: f(1) tl that(1))
    with that(2) ne show ?thesis
      by (simp add: used_space_after_remove)
  qed
  have same: "WDBuff_used_space (WDbuff s') bd = WDBuff_used_space (WDbuff s) bd"
    if "\<not> matched cfg s bd"
    by (rule used_space_cong) (simp_all add: f(1) tl that)
  show ?thesis
    using used same by (simp add: f(1) tl pr)
qed

text \<open>
  Claim C1 fails for a board that is not matched. In \<open>stray_state\<close> both boards are
  peeked; board 1 is not matched, and after the round its buffer still holds its one
  event and the processed counter of its enabled channel 0 is still 0.
\<close>

theorem unmatched_board_keeps_event:
  "all_peeked two_boards stray_state \<and> 1 \<in> set (boards two_boards) \<and>
   ChannelEnable two_boards 1 0 \<and> \<not> matched two_boards stray_state 1 \<and>
   WDBuff_used_space (WDbuff stray_state) 1 = 1 \<and>
   WDBuff_used_space (WDbuff (snd (sync_round two_boards (\<lambda>bd ch. True) stray_state))) 1 = 1 \<and>
   EvProcessed_cnt (chan (WDstats stray_state) 1 0) = 0 \<and>
   EvProcessed_cnt (chan (WDstats (snd (sync_round two_boards (\<lambda>bd ch. True) stray_state))) 1 0) = 0"
  by (simp add: ex_defs round_defs)

text \<open>
  Claim C1, amended. In a round in which every active board was peeked and which runs
  to its end, a board marked matched has exactly one event discarded (\<open>tail\<close> moves
  one slot on, \<open>head\<close> stays; with both cursors inside the array the used space drops
  by one) and the processed counter of each of its enabled channels grows by 1. A
  board that is not matched keeps its event, and its processed counters do not
  change.
\<close>

theorem matched_boards_discard_one_event:
  assumes "all_peeked cfg s" and "bd \<in> set (boards cfg)"
    and "sync_round cfg tp s = (Continue, s')"
  shows
    "(matched cfg s bd \<longrightarrow>
       tail (WDbuff s') bd = (tail (WDbuff s) bd + 1) smod EVT_BUF_SIZE \<and>
       head (WDbuff s') bd = head (WDbuff s) bd \<and>
       (cursors_ok (WDbuff s) bd \<longrightarrow>
          WDBuff_used_space (WDbuff s') bd = WDBuff_used_space (WDbuff s) bd - 1) \<and>
       (\<forall>ch. int ch < Nch cfg bd \<and> ChannelEnable cfg bd ch \<longrightarrow>
          EvProcessed_cnt (chan (WDstats s') bd ch)
            = EvProcessed_cnt (chan (WDstats s) bd ch) + 1)) \<and>
    (\<not> matched cfg s bd \<longrightarrow>
       tail (WDbuff s') bd = tail (WDbuff s) bd \<and>
       head (WDbuff s') bd = head (WDbuff s) bd \<and>
       WDBuff_used_space (WDbuff s') bd = WDBuff_used_space (WDbuff s) bd \<and>
       (\<forall>ch. EvProcessed_cnt (chan (WDstats s') bd ch)
            = EvProcessed_cnt (chan (WDstats s) bd ch)))"
  using assms by (rule round_effect_on_board)

theorem matched_boards_discard_one_event_witness:
  "all_peeked two_boards stray_state \<and> 0 \<in> set (boards two_boards) \<and>
   matched two_boards stray_state 0 \<and> cursors_ok (WDbuff stray_state) 0 \<and>
   sync_round two_boards (\<lambda>bd ch. True) stray_state
     = (Continue, snd (sync_round two_boards (\<lambda>bd ch. True) stray_state)) \<and>
   WDBuff_used_space (WDbuff stray_state) 0 = 1 \<and>
   WDBuff_used_space (WDbuff (snd (sync_round two_boards (\<lambda>bd ch. True) stray_state))) 0 = 0 \<and>
   EvProcessed_cnt (chan (WDstats (snd (sync_round two_boards (\<lambda>bd ch. True) stray_state))) 0 1)
     = EvProcessed_cnt (chan (WDstats stray_state) 0 1) + 1"
proof -
  let ?s' = "snd (sync_round two_boards (\<lambda>bd ch. True) stray_state)"
  have h1: "all_peeked two_boards stray_state"
    by (simp add: ex_defs round_defs)
  have h2: "0 \<in> set (boards two_boards)"
    by (simp add: ex_defs round_defs)
  have "fst (sync_round two_boards (\<lambda>bd ch. True) stray_state) = Continue"
    by (simp add: ex_defs round_defs)
  then have h3: "sync_round two_boards (\<lambda>bd ch. True) stray_state = (Continue, ?s')"
    by (metis prod.collapse)
  have m: "matched two_boards stray_state 0"
    by (simp add: ex_defs round_defs)
  have c: "cursors_ok (WDbuff stray_state) 0"
    by (simp add: ex_defs cursors_ok_def EVT_BUF_SIZE_def)
  have e: "int 1 < Nch two_boards 0 \<and> ChannelEnable two_boards 0 1"
    by (simp add: ex_defs)
  have u: "WDBuff_used_space (WDbuff stray_state) 0 = 1"
    by (simp add: ex_defs round_defs)
  from matched_boards_discard_one_event [OF h1 h2 h3] m c e u h1 h2 h3 show ?thesis
    by (metis diff_self)
qed

text \<open>
  Claim C2 fails on which boards are counted as lost. The round of \<open>stray_state\<close> is a
  partial match: the lost counter of the unmatched board 1 stays 0, and the lost
  counter of the matched board 0 goes from 0 to 1.
\<close>

theorem stray_round_counts_good_board_lost:
  "all_peeked two_boards stray_state \<and>
   count_sync_evt two_boards stray_state < NumBoards two_boards \<and>
   \<not> matched two_boards stray_state 1 \<and> ChannelEnable two_boards 1 0 \<and>
   EvLost_cnt (chan (WDstats stray_state) 1 0) = 0 \<and>
   EvLost_cnt (chan (WDstats (snd (sync_round two_boards (\<lambda>bd ch. True) stray_state))) 1 0) = 0 \<and>
   matched two_boards stray_state 0 \<and>
   EvLost_cnt (chan (WDstats stray_state) 0 0) = 0 \<and>
   EvLost_cnt (chan (WDstats (snd (sync_round two_boards (\<lambda>bd ch. True) stray_state))) 0 0) = 1"
  by (simp add: ex_defs round_defs)

text \<open>
  Claim C2, amended. \<^verbatim>\<open>count_sync_evt\<close> is the number of matched boards. In a partial
  match (fewer matched boards than active boards) the lost counter grows by 1 on every
  enabled channel of every matched board and nowhere else, and \<open>UnSyncEv_cnt\<close> grows
  by the number of unmatched boards. In a full match no lost counter changes, nor
  does \<open>UnSyncEv_cnt\<close>.
\<close>

theorem partial_match_accounting:
  assumes "all_peeked cfg s" and "0 < NumBoards cfg" and "sync_round cfg tp s = (r, s')"
  shows "count_sync_evt cfg s = int (length (filter (matched cfg s) (boards cfg))) \<and>
    (count_sync_evt cfg s < NumBoards cfg \<longrightarrow>
       (\<forall>bd ch. EvLost_cnt (chan (WDstats s') bd ch) =
          EvLost_cnt (chan (WDstats s) bd ch)
            + (if matched cfg s bd \<and> int ch < Nch cfg bd \<and> ChannelEnable cfg bd ch
               then 1 else 0)) \<and>
       UnSyncEv_cnt (WDstats s') =
         UnSyncEv_cnt (WDstats s)
           + of_nat (length (filter (\<lambda>bd. \<not> matched cfg s bd) (boards cfg)))) \<and>
    (\<not> count_sync_evt cfg s < NumBoards cfg \<longrightarrow>
       (\<forall>bd ch. EvLost_cnt (chan (WDstats s') bd ch) = EvLost_cnt (chan (WDstats s) bd ch)) \<and>
       UnSyncEv_cnt (WDstats s') = UnSyncEv_cnt (WDstats s))"
proof -
  note f = sync_round_fields [OF assms]
  have cnt: "count_sync_evt cfg s = int (length (filter (matched cfg s) (boards cfg)))"
    using assms(1,2) by (rule count_sync_evt_eq)
  have "length (filter (matched cfg s) (boards cfg)) \<le> length (boards cfg)"
    by (rule length_filter_le)
  moreover have "int (length (boards cfg)) = NumBoards cfg"
    using assms(2) by (simp add: boards_def)
  ultimately have le: "count_sync_evt cfg s \<le> NumBoards cfg"
    using cnt by linarith
  have full: "count_sync_evt cfg s = NumBoards cfg" if "\<not> count_sync_evt cfg s < NumBoards cfg"
    using that le by simp
  note u = unmatched_count [OF assms(1,2)]
  show ?thesis
  proof (intro conjI impI allI)
    show "count_sync_evt cfg s = int (length (filter (matched cfg s) (boards cfg)))"
      by (fact cnt)
  next
    fix bd ch
    assume "count_sync_evt cfg s < NumBoards cfg"
    then show "EvLost_cnt (chan (WDstats s') bd ch) =
        EvLost_cnt (chan (WDstats s) bd ch)
          + (if matched cfg s bd \<and> int ch < Nch cfg bd \<and> ChannelEnable cfg bd ch
             then 1 else 0)"
      by (simp add: f(2))
  next
    assume "count_sync_evt cfg s < NumBoards cfg"
    then have "UnSyncEv_cnt (WDstats s') = UnSyncEv_cnt (WDstats s)
        + (word_of_int (NumBoards cfg) - word_of_int (count_sync_evt cfg s))"
      by (simp add: f(3))
    then show "UnSyncEv_cnt (WDstats s') = UnSyncEv_cnt (WDstats s)
        + of_nat (length (filter (\<lambda>bd. \<not> matched cfg s bd) (boards cfg)))"
      by (simp only: u)
  next
    fix bd ch
    assume "\<not> count_sync_evt cfg s < NumBoards cfg"
    then show "EvLost_cnt (chan (WDstats s') bd ch) = EvLost_cnt (chan (WDstats s) bd ch)"
      by (simp add: f(2) full)
  next
    assume "\<not> count_sync_evt cfg s < NumBoards cfg"
    then show "UnSyncEv_cnt (WDstats s') = UnSyncEv_cnt (WDstats s)"
      by (simp add: f(3) full)
  qed
qed

theorem partial_match_accounting_witness:
  "all_peeked two_boards stray_state \<and> 0 < NumBoards two_boards \<and>
   count_sync_evt two_boards stray_state = 1 \<and>
   count_sync_evt two_boards stray_state < NumBoards two_boards \<and>
   EvLost_cnt (chan (WDstats (snd (sync_round two_boards (\<lambda>bd ch. True) stray_state))) 0 0)
     = EvLost_cnt (chan (WDstats stray_state) 0 0) + 1 \<and>
   EvLost_cnt (chan (WDstats (snd (sync_round two_boards (\<lambda>bd ch. True) stray_state))) 1 0)
     = EvLost_cnt (chan (WDstats stray_state) 1 0) \<and>
   UnSyncEv_cnt (WDstats (snd (sync_round two_boards (\<lambda>bd ch. True) stray_state)))
     = UnSyncEv_cnt (WDstats stray_state) + 1"
proof -
  let ?s' = "snd (sync_round two_boards (\<lambda>bd ch. True) stray_state)"
  have h1: "all_peeked two_boards stray_state"
    by (simp add: ex_defs round_defs)
  have h2: "0 < NumBoards two_boards"
    by (simp add: ex_defs)
  have h3: "sync_round two_boards (\<lambda>bd ch. True) stray_state
      = (fst (sync_round two_boards (\<lambda>bd ch. True) stray_state), ?s')"
    by simp
  have c: "count_sync_evt two_boards stray_state = 1"
    by (simp add: ex_defs round_defs)
  have p: "count_sync_evt two_boards stray_state < NumBoards two_boards"
    by (simp add: c) (simp add: ex_defs)
  note t = partial_match_accounting [OF h1 h2 h3]
  from t p have lost: "\<And>bd ch. EvLost_cnt (chan (WDstats ?s') bd ch) =
      EvLost_cnt (chan (WDstats stray_state) bd ch)
        + (if matched two_boards stray_state bd \<and> int ch < Nch two_boards bd
              \<and> ChannelEnable two_boards bd ch then 1 else 0)"
    and unsync: "UnSyncEv_cnt (WDstats ?s') = UnSyncEv_cnt (WDstats stray_state)
        + of_nat (length (filter (\<lambda>bd. \<not> matched two_boards stray_state bd) (boards two_boards)))"
    by blast+
  have m0: "matched two_boards stray_state 0 \<and> int 0 < Nch two_boards 0
      \<and> ChannelEnable two_boards 0 0"
    by (simp add: ex_defs round_defs)
  have m1: "\<not> matched two_boards stray_state 1"
    by (simp add: ex_defs round_defs)
  have n: "length (filter (\<lambda>bd. \<not> matched two_boards stray_state bd) (boards two_boards)) = 1"
    by (simp add: ex_defs round_defs)
  have l0: "EvLost_cnt (chan (WDstats ?s') 0 0) = EvLost_cnt (chan (WDstats stray_state) 0 0) + 1"
    by (simp only: lost [of 0 0] m0 simp_thms if_True)
  have l1: "EvLost_cnt (chan (WDstats ?s') 1 0) = EvLost_cnt (chan (WDstats stray_state) 1 0)"
    by (simp only: lost [of 1 0] m1 simp_thms if_False add_0_right)
  have u: "UnSyncEv_cnt (WDstats ?s') = UnSyncEv_cnt (WDstats stray_state) + 1"
    by (simp only: unsync n of_nat_1)
  from h1 h2 c p l0 l1 u show ?thesis
    by (intro conjI)
qed

text \<open>
  With at most \<open>MAX_BD\<close> boards, a partial match that finds the counter of
  unsynchronized events at zero leaves it at the number of unmatched boards, which is
  not zero: the warning is not logged.
\<close>

lemma first_partial_round_never_warns:
  assumes "all_peeked cfg s" and "0 < NumBoards cfg" and "NumBoards cfg \<le> MAX_BD"
    and "sync_round cfg tp s = (r, s')"
    and "count_sync_evt cfg s < NumBoards cfg" and "UnSyncEv_cnt (WDstats s) = 0"
  shows "UnSyncEv_cnt (WDstats s') \<noteq> 0 \<and> warnings s' = warnings s"
proof -
  let ?m = "length (filter (matched cfg s) (boards cfg))"
  let ?u = "length (filter (\<lambda>bd. \<not> matched cfg s bd) (boards cfg))"
  note f = sync_round_fields [OF assms(1,2,4)]
  have "?m + ?u = length (boards cfg)"
    by (rule sum_length_filter_compl)
  moreover have "int (length (boards cfg)) = NumBoards cfg"
    using assms(2) by (simp add: boards_def)
  moreover have "count_sync_evt cfg s = int ?m"
    using assms(1,2) by (rule count_sync_evt_eq)
  ultimately have "0 < ?u" and "?u \<le> 4"
    using assms(3,5) unfolding MAX_BD_def by linarith+
  then have "0 < ?u" and "?u < 2 ^ LENGTH(64)"
    by simp_all
  then have nz: "(of_nat ?u :: 64 word) \<noteq> 0"
    by (rule of_nat_neq_0)
  have "UnSyncEv_cnt (WDstats s') = of_nat ?u"
    using assms(5,6) by (simp add: f(3) unmatched_count [OF assms(1,2)])
  with nz have "UnSyncEv_cnt (WDstats s') \<noteq> 0"
    by simp
  then show ?thesis
    by (simp add: f(4))
qed

text \<open>
  Claim C5. The round of \<open>stray_state\<close> is the first partial match of a run: the
  counter of unsynchronized events goes from 0 to 1, and no warning is logged. The
  test \<^verbatim>\<open>WDstats.UnSyncEv_cnt == 0\<close> comes after the addition.
\<close>

theorem first_partial_round_logs_no_warning:
  "fst (sync_round two_boards (\<lambda>bd ch. True) stray_state) = Continue \<and>
   count_sync_evt two_boards stray_state < NumBoards two_boards \<and>
   UnSyncEv_cnt (WDstats stray_state) = 0 \<and> warnings stray_state = 0 \<and>
   UnSyncEv_cnt (WDstats (snd (sync_round two_boards (\<lambda>bd ch. True) stray_state))) = 1 \<and>
   warnings (snd (sync_round two_boards (\<lambda>bd ch. True) stray_state)) = 0"
  by (simp add: ex_defs round_defs)

text \<open>
  Claim C8 fails where the product with 5 wraps around. In \<open>wrap_state\<close> board 1 is
  3689348814741910324 ticks after the minimum, far more than \<open>SYNC_WIN\<close> ns, and it
  is marked matched: the product is \<open>2 ^ 64 + 4\<close>, which the 64-bit multiplication
  turns into 4.
\<close>

theorem window_test_wraps:
  "all_peeked two_boards wrap_state \<and> 1 \<in> set (boards two_boards) \<and>
   peeked_TDC two_boards wrap_state 1 = 3689348814741910324 \<and>
   round_min two_boards wrap_state = 0 \<and>
   matched two_boards wrap_state 1 \<and>
   \<not> 5 * (unat (peeked_TDC two_boards wrap_state 1) - unat (round_min two_boards wrap_state))
       \<le> nat SYNC_WIN"
  by (simp add: ex_defs round_defs peeked_TDC_def oldest_def round_min_def)

lemma round_min_le:
  "bd \<in> set (boards cfg) \<Longrightarrow> round_min cfg s \<le> peeked_TDC cfg s bd"
  by (simp add: round_min_def)

text \<open>
  Claim C8, amended. In a round in which every active board was peeked, a board whose
  offset from the round minimum, times 5 ns, is below \<open>2 ^ 64\<close> is marked matched if and
  only if that offset in ns is at most \<open>SYNC_WIN\<close>.
\<close>

theorem window_test:
  assumes "all_peeked cfg s" and "bd \<in> set (boards cfg)"
    and "5 * (unat (peeked_TDC cfg s bd) - unat (round_min cfg s)) < 2 ^ 64"
  shows "round_min cfg s \<le> peeked_TDC cfg s bd \<and>
    (matched cfg s bd \<longleftrightarrow>
       5 * (unat (peeked_TDC cfg s bd) - unat (round_min cfg s)) \<le> nat SYNC_WIN)"
proof -
  let ?t = "peeked_TDC cfg s bd" and ?m = "round_min cfg s"
  from assms(2) have nb: "0 < NumBoards cfg"
    by (simp add: boards_mem)
  have le: "?m \<le> ?t"
    using assms(2) by (rule round_min_le)
  then have d: "unat (?t - ?m) = unat ?t - unat ?m"
    by (simp add: unat_sub)
  have "unat ((?t - ?m) * 5) = unat (?t - ?m) * unat (5 :: 64 word) mod 2 ^ LENGTH(64)"
    by (rule unat_word_ariths(2))
  then have "unat ((?t - ?m) * 5) = (unat (?t - ?m) * 5) mod 2 ^ 64"
    by simp
  with assms(3) d have u: "unat ((?t - ?m) * 5) = 5 * (unat ?t - unat ?m)"
    by (simp add: mult.commute)
  have "matched cfg s bd \<longleftrightarrow> (?t - ?m) * 5 \<le> 100"
    using assms(2) by (simp add: matched_iff [OF assms(1) nb])
  also have "\<dots> \<longleftrightarrow> unat ((?t - ?m) * 5) \<le> unat (100 :: 64 word)"
    by (rule word_le_nat_alt)
  finally show ?thesis
    using le u by (simp add: SYNC_WIN_def)
qed

theorem window_test_witness:
  "all_peeked two_boards window_edge_state \<and> 1 \<in> set (boards two_boards) \<and>
   5 * (unat (peeked_TDC two_boards window_edge_state 1)
          - unat (round_min two_boards window_edge_state)) < 2 ^ 64 \<and>
   5 * (unat (peeked_TDC two_boards window_edge_state 1)
          - unat (round_min two_boards window_edge_state)) = nat SYNC_WIN \<and>
   matched two_boards window_edge_state 1"
proof -
  have h1: "all_peeked two_boards window_edge_state"
    by (simp add: ex_defs round_defs)
  have h2: "1 \<in> set (boards two_boards)"
    by (simp add: ex_defs round_defs)
  have v: "peeked_TDC two_boards window_edge_state 1 = 20"
    "round_min two_boards window_edge_state = 0"
    by (simp_all add: ex_defs round_defs peeked_TDC_def oldest_def round_min_def)
  have h3: "5 * (unat (peeked_TDC two_boards window_edge_state 1)
          - unat (round_min two_boards window_edge_state)) < 2 ^ 64"
    unfolding v by simp
  have e: "5 * (unat (peeked_TDC two_boards window_edge_state 1)
          - unat (round_min two_boards window_edge_state)) = nat SYNC_WIN"
    unfolding v by (simp add: SYNC_WIN_def)
  from window_test [OF h1 h2 h3] e have "matched two_boards window_edge_state 1"
    by (simp only: simp_thms)
  with h1 h2 h3 e show ?thesis
    by (intro conjI)
qed

text \<open>
  In every round in which every active board was peeked, a board whose time stamp is
  the round minimum is marked matched, so the count of matched boards is at least 1;
  when the round runs to its end, that board has its oldest event discarded. A partial
  match always runs to its end, and so does a full match when the reference board
  \<^verbatim>\<open>TOFstartBoard\<close> is one of the active boards.
\<close>

lemma min_board_matches:
  assumes "all_peeked cfg s" and "0 < NumBoards cfg" and "sync_round cfg tp s = (r, s')"
  shows "1 \<le> count_sync_evt cfg s \<and>
    (\<exists>bd \<in> set (boards cfg).
       peeked_TDC cfg s bd = round_min cfg s \<and> matched cfg s bd \<and>
       (r = Continue \<longrightarrow>
          tail (WDbuff s') bd = (tail (WDbuff s) bd + 1) smod EVT_BUF_SIZE \<and>
          head (WDbuff s') bd = head (WDbuff s) bd \<and>
          (cursors_ok (WDbuff s) bd \<longrightarrow>
             WDBuff_used_space (WDbuff s') bd = WDBuff_used_space (WDbuff s) bd - 1)))"
proof -
  have ne: "set (boards cfg) \<noteq> {}"
    using assms(2) by (simp add: boards_def)
  then have "round_min cfg s \<in> peeked_TDC cfg s ` set (boards cfg)"
    unfolding round_min_def by (intro Min_in) simp_all
  then obtain bd where bd: "bd \<in> set (boards cfg)" and eq: "peeked_TDC cfg s bd = round_min cfg s"
    by auto
  have m: "matched cfg s bd"
    using bd eq by (simp add: matched_iff [OF assms(1,2)])
  have d: "tail (WDbuff s') bd = (tail (WDbuff s) bd + 1) smod EVT_BUF_SIZE \<and>
      head (WDbuff s') bd = head (WDbuff s) bd \<and>
      (cursors_ok (WDbuff s) bd \<longrightarrow>
         WDBuff_used_space (WDbuff s') bd = WDBuff_used_space (WDbuff s) bd - 1)"
    if "r = Continue"
    using round_effect_on_board [OF assms(1) bd, of tp s'] assms(3) that m by simp
  have "filter (matched cfg s) (boards cfg) \<noteq> []"
    using bd m by (auto simp: filter_empty_conv)
  then have "1 \<le> int (length (filter (matched cfg s) (boards cfg)))"
    by (cases "filter (matched cfg s) (boards cfg)") simp_all
  then have "1 \<le> count_sync_evt cfg s"
    by (simp only: count_sync_evt_eq [OF assms(1,2)])
  with d m bd eq show ?thesis by blast
qed

lemma round_runs_to_end:
  assumes "all_peeked cfg s" and "0 < NumBoards cfg"
    and "count_sync_evt cfg s \<noteq> NumBoards cfg
           \<or> (0 \<le> TOFstartBoard cfg \<and> TOFstartBoard cfg < NumBoards cfg
                \<and> NumBoards cfg \<le> MAX_BD)"
  shows "fst (sync_round cfg tp s) = Continue"
  using sync_round_fields(7) [OF assms(1,2) prod.collapse [symmetric] assms(3)] .

text \<open>
  Claim C9. With the reference board \<^verbatim>\<open>TOFstartBoard = 2\<close>, which is not one of the two
  active boards, the round of \<open>window_edge_state\<close> is a full match: both buffers hold
  an event and both boards are marked matched. The round does not run to its end:
  \<^verbatim>\<open>EventProcessing\<close> reads through the \<^verbatim>\<open>NULL\<close> reference pointer before
  \<^verbatim>\<open>WDBuff_remove\<close> is reached, and no event is removed from either buffer.
\<close>

theorem full_match_without_reference_removes_nothing:
  "WDBuff_empty (WDbuff window_edge_state) 0 = 0 \<and>
   WDBuff_empty (WDbuff window_edge_state) 1 = 0 \<and>
   matched bad_ref_boards window_edge_state 0 \<and>
   matched bad_ref_boards window_edge_state 1 \<and>
   count_sync_evt bad_ref_boards window_edge_state = NumBoards bad_ref_boards \<and>
   RefEvent window_edge_state 2 = None \<and>
   fst (sync_round bad_ref_boards (\<lambda>bd ch. True) window_edge_state) = Null_deref \<and>
   tail (WDbuff (snd (sync_round bad_ref_boards (\<lambda>bd ch. True) window_edge_state))) 0
     = tail (WDbuff window_edge_state) 0 \<and>
   tail (WDbuff (snd (sync_round bad_ref_boards (\<lambda>bd ch. True) window_edge_state))) 1
     = tail (WDbuff window_edge_state) 1 \<and>
   WDBuff_used_space (WDbuff (snd (sync_round bad_ref_boards (\<lambda>bd ch. True) window_edge_state))) 0
     = 1 \<and>
   WDBuff_used_space (WDbuff (snd (sync_round bad_ref_boards (\<lambda>bd ch. True) window_edge_state))) 1
     = 1"
  by (simp add: bad_ref_boards_def ex_defs round_defs)

section \<open>Properties of the statistics\<close>

lemmas stat_ex_defs = one_channel_def integrated_run_def instantaneous_run_def stopped_run_def
  inconsistent_stats_def running_stats_def unavailable_stats_def zero_stats_def zero_chan_def

lemmas stat_defs = UpdateStatistics_def update_globals_def fdiv_def boards_def channels_def
  upd_chan_def update_channel_def rates_before_clamp_def rates_step_def input_rate_step_def
  lost_rate_step_def lost_clamp_def dead_time_step_def busy_time_step_def
  matching_ratio_step_def save_counters_def Let_def upt_conv_Cons
  REALTIME_FROM_BOARDS_def REALTIME_FROM_COMPUTER_def


lemma stat_channel_loop_AcqRealTime:
  "AcqRealTime (stat_channel_loop cfg run b chs st) = AcqRealTime st"
  by (induction chs arbitrary: st) (simp_all add: upd_chan_def)

lemma stat_channel_loop_chan:
  "distinct chs \<Longrightarrow>
   chan (stat_channel_loop cfg run b chs st) b' c' =
     (if b' = b \<and> c' \<in> set chs \<and> ChannelEnable cfg b c'
      then update_channel run (AcqRealTime st) (chan st b' c') else chan st b' c')"
  by (induction chs arbitrary: st) (auto simp: upd_chan_def)

lemma stat_board_loop_AcqRealTime:
  "AcqRealTime (stat_board_loop cfg run bs st) = AcqRealTime st"
  by (induction bs arbitrary: st) (simp_all add: stat_channel_loop_AcqRealTime)

lemma stat_board_loop_chan:
  "distinct bs \<Longrightarrow>
   chan (stat_board_loop cfg run bs st) b c =
     (if b \<in> set bs \<and> c \<in> set (channels cfg b) \<and> ChannelEnable cfg b c
      then update_channel run (AcqRealTime st) (chan st b c) else chan st b c)"
  by (induction bs arbitrary: st)
    (auto simp: stat_channel_loop_chan distinct_channels stat_channel_loop_AcqRealTime)

lemma update_globals_chan: "chan (update_globals run t st) = chan st"
  by (simp add: update_globals_def Let_def)

lemma UpdateStatistics_chan:
  assumes "UpdateStatistics cfg run t st = (r, st')"
  shows "AcqRealTime st' = AcqRealTime (update_globals run t st)"
    and "chan st' b c =
      (if b \<in> set (boards cfg) \<and> c \<in> set (channels cfg b) \<and> ChannelEnable cfg b c
       then update_channel run (AcqRealTime st') (chan st b c) else chan st b c)"
proof -
  from assms have s: "st' = (stat_board_loop cfg run (boards cfg) (update_globals run t st))
      \<lparr>PrevProcTstampAll :=
         LatestProcTstampAll (stat_board_loop cfg run (boards cfg) (update_globals run t st))\<rparr>"
    by (auto simp: UpdateStatistics_def Let_def)
  show a: "AcqRealTime st' = AcqRealTime (update_globals run t st)"
    by (simp add: s stat_board_loop_AcqRealTime)
  show "chan st' b c =
      (if b \<in> set (boards cfg) \<and> c \<in> set (channels cfg b) \<and> ChannelEnable cfg b c
       then update_channel run (AcqRealTime st') (chan st b c) else chan st b c)"
    unfolding a by (simp add: s stat_board_loop_chan distinct_boards update_globals_chan)
qed

text \<open>What each step of the channel body leaves alone.\<close>

lemma rates_step_stalled:
  "IntegratedRates run = 0 \<Longrightarrow> LatestReadTstamp c \<le> PrevReadTstamp c \<Longrightarrow>
     EvRead_rate (rates_step run c) = 0 \<and> EvFilt_rate (rates_step run c) = 0"
  by (simp add: rates_step_def Let_def not_less [symmetric])

lemma rates_step_tstamps:
  "LatestReadTstamp (rates_step run c) = LatestReadTstamp c"
  "PrevReadTstamp (rates_step run c) = PrevReadTstamp c"
  by (simp_all add: rates_step_def Let_def)

lemma input_rate_step_frame:
  "EvRead_rate (input_rate_step run acq c) = EvRead_rate c"
  "EvFilt_rate (input_rate_step run acq c) = EvFilt_rate c"
  "LatestReadTstamp (input_rate_step run acq c) = LatestReadTstamp c"
  "PrevReadTstamp (input_rate_step run acq c) = PrevReadTstamp c"
  "EvLost_cnt (input_rate_step run acq c) = EvLost_cnt c"
  by (simp_all add: input_rate_step_def Let_def)


lemma lost_rate_step_frame:
  "EvRead_rate (lost_rate_step run c) = EvRead_rate c"
  "EvFilt_rate (lost_rate_step run c) = EvFilt_rate c"
  "EvInput_rate (lost_rate_step run c) = EvInput_rate c"
  "LatestReadTstamp (lost_rate_step run c) = LatestReadTstamp c"
  "PrevReadTstamp (lost_rate_step run c) = PrevReadTstamp c"
  by (simp_all add: lost_rate_step_def)



lemma lost_clamp_frame:
  "EvRead_rate (lost_clamp c) = EvRead_rate c"
  "EvFilt_rate (lost_clamp c) = EvFilt_rate c"
  "EvInput_rate (lost_clamp c) = EvInput_rate c"
  "LatestReadTstamp (lost_clamp c) = LatestReadTstamp c"
  "PrevReadTstamp (lost_clamp c) = PrevReadTstamp c"
  by (simp_all add: lost_clamp_def)

lemma dead_time_step_frame:
  "EvRead_rate (dead_time_step c) = EvRead_rate c"
  "EvFilt_rate (dead_time_step c) = EvFilt_rate c"
  "EvInput_rate (dead_time_step c) = EvInput_rate c"
  "EvLost_rate (dead_time_step c) = EvLost_rate c"
  "LatestReadTstamp (dead_time_step c) = LatestReadTstamp c"
  "PrevReadTstamp (dead_time_step c) = PrevReadTstamp c"
  by (simp_all add: dead_time_step_def Let_def)

lemma busy_time_step_frame:
  "EvRead_rate (busy_time_step c) = EvRead_rate c"
  "EvFilt_rate (busy_time_step c) = EvFilt_rate c"
  "EvInput_rate (busy_time_step c) = EvInput_rate c"
  "EvLost_rate (busy_time_step c) = EvLost_rate c"
  "DeadTime (busy_time_step c) = DeadTime c"
  "LatestReadTstamp (busy_time_step c) = LatestReadTstamp c"
  "PrevReadTstamp (busy_time_step c) = PrevReadTstamp c"
  by (simp_all add: busy_time_step_def Let_def)

lemma matching_ratio_step_frame:
  "EvRead_rate (matching_ratio_step c) = EvRead_rate c"
  "EvFilt_rate (matching_ratio_step c) = EvFilt_rate c"
  "EvInput_rate (matching_ratio_step c) = EvInput_rate c"
  "EvLost_rate (matching_ratio_step c) = EvLost_rate c"
  "DeadTime (matching_ratio_step c) = DeadTime c"
  "LatestReadTstamp (matching_ratio_step c) = LatestReadTstamp c"
  "PrevReadTstamp (matching_ratio_step c) = PrevReadTstamp c"
  by (simp_all add: matching_ratio_step_def)

lemma save_counters_frame:
  "EvRead_rate (save_counters c) = EvRead_rate c"
  "EvFilt_rate (save_counters c) = EvFilt_rate c"
  "EvInput_rate (save_counters c) = EvInput_rate c"
  "EvLost_rate (save_counters c) = EvLost_rate c"
  "DeadTime (save_counters c) = DeadTime c"
  "LatestReadTstamp (save_counters c) = LatestReadTstamp c"
  "PrevReadTstamp (save_counters c) = LatestReadTstamp c"
  by (simp_all add: save_counters_def)

lemmas step_frames = lost_clamp_frame dead_time_step_frame busy_time_step_frame
  matching_ratio_step_frame save_counters_frame lost_rate_step_frame input_rate_step_frame
  rates_step_tstamps

lemma update_channel_rates:
  "EvRead_rate (update_channel run acq c) = EvRead_rate (rates_step run c)"
  "EvFilt_rate (update_channel run acq c) = EvFilt_rate (rates_step run c)"
  "LatestReadTstamp (update_channel run acq c) = LatestReadTstamp c"
  "PrevReadTstamp (update_channel run acq c) = LatestReadTstamp c"
  by (simp_all add: update_channel_def rates_before_clamp_def step_frames)

lemma update_channel_clamp:
  "EvInput_rate (update_channel run acq c) = EvInput_rate (rates_before_clamp run acq c)"
  "EvLost_rate (update_channel run acq c) = EvLost_rate (lost_clamp (rates_before_clamp run acq c))"
  "DeadTime (update_channel run acq c)
     = DeadTime (dead_time_step (lost_clamp (rates_before_clamp run acq c)))"
  by (simp_all add: update_channel_def step_frames)



text \<open>
  Claim C4 fails on the value of the dead time. On \<open>inconsistent_stats\<close> the rates
  computed before the clamp are 1000 (input) and 1200 (lost); the lost rate is clamped
  to 1000, and the dead time is \<open>1 - (1000 - 1000) / 1000 = 1\<close>, not 0.
\<close>

theorem inconsistent_rates_dead_time_is_one:
  "EvInput_rate (rates_before_clamp integrated_run
     (AcqRealTime (snd (UpdateStatistics one_channel integrated_run 1000 inconsistent_stats)))
     (chan inconsistent_stats 0 0)) = 1000 \<and>
   EvLost_rate (rates_before_clamp integrated_run
     (AcqRealTime (snd (UpdateStatistics one_channel integrated_run 1000 inconsistent_stats)))
     (chan inconsistent_stats 0 0)) = 1200 \<and>
   EvLost_rate (chan (snd (UpdateStatistics one_channel integrated_run 1000 inconsistent_stats)) 0 0)
     = 1000 \<and>
   DeadTime (chan (snd (UpdateStatistics one_channel integrated_run 1000 inconsistent_stats)) 0 0)
     = 1 \<and>
   DeadTime (chan (snd (UpdateStatistics one_channel integrated_run 1000 inconsistent_stats)) 0 0)
     \<noteq> 0"
  by (simp add: stat_ex_defs stat_defs)

text \<open>
  Claim C4, amended. For an enabled channel whose computed input rate is 1000 and
  whose computed lost rate is 1200, \<^verbatim>\<open>UpdateStatistics\<close> clamps the lost rate to 1000
  and leaves the dead time of the channel at 1, the upper end of its range; it is
  not negative.
\<close>

theorem inconsistent_rates_clamped:
  assumes "UpdateStatistics cfg run t st = (r, st')"
    and "b \<in> set (boards cfg)" and "ch \<in> set (channels cfg b)" and "ChannelEnable cfg b ch"
    and "EvInput_rate (rates_before_clamp run (AcqRealTime st') (chan st b ch)) = 1000"
    and "EvLost_rate (rates_before_clamp run (AcqRealTime st') (chan st b ch)) = 1200"
  shows "EvLost_rate (chan st' b ch) = 1000 \<and> DeadTime (chan st' b ch) = 1"
proof -
  let ?c = "rates_before_clamp run (AcqRealTime st') (chan st b ch)"
  have c: "chan st' b ch = update_channel run (AcqRealTime st') (chan st b ch)"
    using assms(2-4) by (simp add: UpdateStatistics_chan(2) [OF assms(1)])
  have l: "EvLost_rate (lost_clamp ?c) = 1000" and i: "EvInput_rate (lost_clamp ?c) = 1000"
    using assms(5,6) by (simp_all add: lost_clamp_def)
  then have "DeadTime (dead_time_step (lost_clamp ?c)) = 1"
    by (simp add: dead_time_step_def Let_def)
  with l show ?thesis
    by (simp add: c update_channel_clamp)
qed

theorem inconsistent_rates_clamped_witness:
  "UpdateStatistics one_channel integrated_run 1000 inconsistent_stats
     = (0, snd (UpdateStatistics one_channel integrated_run 1000 inconsistent_stats)) \<and>
   0 \<in> set (boards one_channel) \<and> 0 \<in> set (channels one_channel 0) \<and>
   ChannelEnable one_channel 0 0 \<and>
   EvInput_rate (rates_before_clamp integrated_run
     (AcqRealTime (snd (UpdateStatistics one_channel integrated_run 1000 inconsistent_stats)))
     (chan inconsistent_stats 0 0)) = 1000 \<and>
   EvLost_rate (rates_before_clamp integrated_run
     (AcqRealTime (snd (UpdateStatistics one_channel integrated_run 1000 inconsistent_stats)))
     (chan inconsistent_stats 0 0)) = 1200 \<and>
   EvLost_rate (chan (snd (UpdateStatistics one_channel integrated_run 1000 inconsistent_stats)) 0 0)
     = 1000 \<and>
   DeadTime (chan (snd (UpdateStatistics one_channel integrated_run 1000 inconsistent_stats)) 0 0)
     = 1"
proof -
  let ?st' = "snd (UpdateStatistics one_channel integrated_run 1000 inconsistent_stats)"
  have h1: "UpdateStatistics one_channel integrated_run 1000 inconsistent_stats = (0, ?st')"
    by (simp add: UpdateStatistics_def Let_def)
  have h2: "0 \<in> set (boards one_channel)" and h3: "0 \<in> set (channels one_channel 0)"
    and h4: "ChannelEnable one_channel 0 0"
    by (simp_all add: one_channel_def boards_def channels_def)
  have h5: "EvInput_rate (rates_before_clamp integrated_run (AcqRealTime ?st')
      (chan inconsistent_stats 0 0)) = 1000"
    and h6: "EvLost_rate (rates_before_clamp integrated_run (AcqRealTime ?st')
      (chan inconsistent_stats 0 0)) = 1200"
    by (simp_all add: stat_ex_defs rates_before_clamp_def rates_step_def input_rate_step_def
        lost_rate_step_def Let_def)
  from inconsistent_rates_clamped [OF h1 h2 h3 h4 h5 h6] h1 h2 h3 h4 h5 h6 show ?thesis
    by (intro conjI) simp_all
qed

text \<open>
  Claim C7 fails: the rates are not kept. In instantaneous mode a first update of
  \<open>running_stats\<close> gives a read rate of 1000 and a filtered rate of 600 and makes the
  previous time stamp equal to the latest one; a second update with the same counters
  and time stamps gives 0 for both rates.
\<close>

theorem stalled_channel_rates_drop_to_zero:
  "EvRead_rate (chan (snd (UpdateStatistics one_channel instantaneous_run 1000 running_stats)) 0 0)
     = 1000 \<and>
   EvFilt_rate (chan (snd (UpdateStatistics one_channel instantaneous_run 1000 running_stats)) 0 0)
     = 600 \<and>
   LatestReadTstamp (chan (snd (UpdateStatistics one_channel instantaneous_run 1000 running_stats)) 0 0)
     \<le> PrevReadTstamp (chan (snd (UpdateStatistics one_channel instantaneous_run 1000 running_stats)) 0 0) \<and>
   EvRead_rate (chan (snd (UpdateStatistics one_channel instantaneous_run 2000
       (snd (UpdateStatistics one_channel instantaneous_run 1000 running_stats)))) 0 0) = 0 \<and>
   EvFilt_rate (chan (snd (UpdateStatistics one_channel instantaneous_run 2000
       (snd (UpdateStatistics one_channel instantaneous_run 1000 running_stats)))) 0 0) = 0"
  by (simp add: stat_ex_defs stat_defs)

text \<open>
  Claim C7, amended. In instantaneous mode, for an enabled channel whose read time
  stamp has not advanced since the previous snapshot, \<^verbatim>\<open>UpdateStatistics\<close> sets the read
  rate and the filtered rate to 0. Consequently a second update on the state the
  first one leaves (the cumulative counters and time stamps unchanged) gives 0 for
  both rates, whatever the first update computed.
\<close>

theorem stalled_channel_rates_are_zero:
  assumes "UpdateStatistics cfg run t st = (r, st')"
    and "UpdateStatistics cfg run t2 st' = (r2, st'')"
    and "b \<in> set (boards cfg)" and "ch \<in> set (channels cfg b)" and "ChannelEnable cfg b ch"
    and "IntegratedRates run = 0"
  shows "(LatestReadTstamp (chan st b ch) \<le> PrevReadTstamp (chan st b ch) \<longrightarrow>
            EvRead_rate (chan st' b ch) = 0 \<and> EvFilt_rate (chan st' b ch) = 0) \<and>
         EvRead_rate (chan st'' b ch) = 0 \<and> EvFilt_rate (chan st'' b ch) = 0"
proof -
  have c1: "chan st' b ch = update_channel run (AcqRealTime st') (chan st b ch)"
    using assms(3-5) by (simp add: UpdateStatistics_chan(2) [OF assms(1)])
  have c2: "chan st'' b ch = update_channel run (AcqRealTime st'') (chan st' b ch)"
    using assms(3-5) by (simp add: UpdateStatistics_chan(2) [OF assms(2)])
  have first: "EvRead_rate (chan st' b ch) = 0 \<and> EvFilt_rate (chan st' b ch) = 0"
    if "LatestReadTstamp (chan st b ch) \<le> PrevReadTstamp (chan st b ch)"
    using rates_step_stalled [OF assms(6) that] by (simp add: c1 update_channel_rates)
  have "LatestReadTstamp (chan st' b ch) \<le> PrevReadTstamp (chan st' b ch)"
    by (simp add: c1 update_channel_rates)
  then have "EvRead_rate (chan st'' b ch) = 0 \<and> EvFilt_rate (chan st'' b ch) = 0"
    using rates_step_stalled [OF assms(6)] by (simp add: c2 update_channel_rates)
  with first show ?thesis by blast
qed

theorem stalled_channel_rates_are_zero_witness:
  "UpdateStatistics one_channel instantaneous_run 1000 running_stats
     = (0, snd (UpdateStatistics one_channel instantaneous_run 1000 running_stats)) \<and>
   UpdateStatistics one_channel instantaneous_run 2000
       (snd (UpdateStatistics one_channel instantaneous_run 1000 running_stats))
     = (0, snd (UpdateStatistics one_channel instantaneous_run 2000
         (snd (UpdateStatistics one_channel instantaneous_run 1000 running_stats)))) \<and>
   0 \<in> set (boards one_channel) \<and> 0 \<in> set (channels one_channel 0) \<and>
   ChannelEnable one_channel 0 0 \<and> IntegratedRates instantaneous_run = 0 \<and>
   EvRead_rate (chan (snd (UpdateStatistics one_channel instantaneous_run 2000
       (snd (UpdateStatistics one_channel instantaneous_run 1000 running_stats)))) 0 0) = 0 \<and>
   EvFilt_rate (chan (snd (UpdateStatistics one_channel instantaneous_run 2000
       (snd (UpdateStatistics one_channel instantaneous_run 1000 running_stats)))) 0 0) = 0"
proof -
  let ?st' = "snd (UpdateStatistics one_channel instantaneous_run 1000 running_stats)"
  let ?st'' = "snd (UpdateStatistics one_channel instantaneous_run 2000 ?st')"
  have h1: "UpdateStatistics one_channel instantaneous_run 1000 running_stats = (0, ?st')"
    by (simp add: UpdateStatistics_def Let_def)
  have h2: "UpdateStatistics one_channel instantaneous_run 2000 ?st' = (0, ?st'')"
    by (simp add: UpdateStatistics_def Let_def)
  have h3: "0 \<in> set (boards one_channel)" and h4: "0 \<in> set (channels one_channel 0)"
    and h5: "ChannelEnable one_channel 0 0" and h6: "IntegratedRates instantaneous_run = 0"
    by (simp_all add: one_channel_def instantaneous_run_def boards_def channels_def)
  from stalled_channel_rates_are_zero [OF h1 h2 h3 h4 h5 h6] h1 h2 h3 h4 h5 h6 show ?thesis
    by (intro conjI) simp_all
qed




end
